theory Spec2Isabelle
  imports Complex_Main
begin

section \<open>Data model (ai\_config.py, ai\_service.py)\<close>

text \<open>
  The response-generation subsystem of the planner: the configuration manager
  (\<^verbatim>\<open>AIConfigurationManager\<close>), the provider adapter (\<^verbatim>\<open>OpenAIProvider\<close>), the
  orchestrator (\<^verbatim>\<open>AIService\<close>) and the administrative update route.

  Instants (\<^verbatim>\<open>datetime\<close>) are seconds on the rational line, durations
  (\<^verbatim>\<open>timedelta\<close>, the argument of \<^verbatim>\<open>asyncio.sleep\<close>) are rationals as well; the
  rounding of Python's floats is not part of the model. Strings are byte lists.
\<close>

type_synonym time = rat

datatype AIProvider = OPENAI | ANTHROPIC | LOCAL | FALLBACK

datatype SubjectMatter =
    TASK_CREATION | TASK_COMPLETION | MOTIVATION | CELEBRATION | ENCOURAGEMENT
  | PRODUCTIVITY_TIPS | GOAL_SETTING | TIME_MANAGEMENT | HABIT_FORMATION
  | STRESS_MANAGEMENT | TEAM_COLLABORATION | PROJECT_PLANNING

fun provider_value :: "AIProvider \<Rightarrow> string" where
  "provider_value OPENAI = ''openai''"
| "provider_value ANTHROPIC = ''anthropic''"
| "provider_value LOCAL = ''local''"
| "provider_value FALLBACK = ''fallback''"

fun subject_value :: "SubjectMatter \<Rightarrow> string" where
  "subject_value TASK_CREATION = ''task_creation''"
| "subject_value TASK_COMPLETION = ''task_completion''"
| "subject_value MOTIVATION = ''motivation''"
| "subject_value CELEBRATION = ''celebration''"
| "subject_value ENCOURAGEMENT = ''encouragement''"
| "subject_value PRODUCTIVITY_TIPS = ''productivity_tips''"
| "subject_value GOAL_SETTING = ''goal_setting''"
| "subject_value TIME_MANAGEMENT = ''time_management''"
| "subject_value HABIT_FORMATION = ''habit_formation''"
| "subject_value STRESS_MANAGEMENT = ''stress_management''"
| "subject_value TEAM_COLLABORATION = ''team_collaboration''"
| "subject_value PROJECT_PLANNING = ''project_planning''"

text \<open>
  The values a context dictionary, a metadata dictionary or a JSON body carries:
  \<^verbatim>\<open>None\<close>, booleans, integers and strings.
\<close>

datatype pyval = PNone | PBool bool | PInt int | PStr string

text \<open>Python's truth value of such a value (\<^verbatim>\<open>if mood:\<close>).\<close>

fun truthy :: "pyval \<Rightarrow> bool" where
  "truthy PNone = False"
| "truthy (PBool b) = b"
| "truthy (PInt i) = (i \<noteq> 0)"
| "truthy (PStr s) = (s \<noteq> [])"

text \<open>Python's \<^verbatim>\<open>==\<close> on these values: a boolean equals the integer 0 or 1.\<close>

fun py_eq :: "pyval \<Rightarrow> pyval \<Rightarrow> bool" where
  "py_eq (PBool b) (PInt i) = ((if b then 1 else 0) = i)"
| "py_eq (PInt i) (PBool b) = (i = (if b then 1 else 0))"
| "py_eq a b = (a = b)"

text \<open>
  A dictionary with string keys, in insertion order; \<^verbatim>\<open>d.get(k, default)\<close> is
  \<open>dict_get\<close>.
\<close>

type_synonym pydict = "(string \<times> pyval) list"

definition dict_get :: "pydict \<Rightarrow> string \<Rightarrow> pyval \<Rightarrow> pyval" where
  "dict_get d k dflt = (case map_of d k of None \<Rightarrow> dflt | Some v \<Rightarrow> v)"

datatype exn =
    AIServiceError string
  | KeyError string
  | IndexError string
  | ValueError string
  | TypeError string
  | Unmodelled string

record AIModelConfig =
  provider :: AIProvider
  model_name :: string
  api_key :: "string option"
  api_base :: "string option"
  max_tokens :: int
  temperature :: rat
  timeout :: int
  retry_attempts :: int
  retry_delay :: rat

record SubjectMatterConfig =
  subject :: SubjectMatter
  primary_model :: AIModelConfig
  fallback_model :: "AIModelConfig option"
  system_prompt :: string
  context_template :: string
  response_format :: string
  max_context_length :: int
  cache_responses :: bool
  cache_duration_hours :: int

text \<open>
  \<^verbatim>\<open>FallbackResponse\<close>. The field \<^verbatim>\<open>context_type\<close> is declared \<^verbatim>\<open>str\<close>, but the
  generic response stores whatever value the caller passed, so it is a \<open>pyval\<close>.
\<close>

record FallbackResponse =
  fb_subject :: SubjectMatter
  fb_context_type :: pyval
  fb_mood :: string
  response_text :: string
  fb_animation_type :: string
  weight :: int
  created_at :: time

text \<open>
  \<^verbatim>\<open>AIResponse\<close>, and the dictionary \<^verbatim>\<open>to_dict()\<close> makes of it. The dictionary
  always has the six keys of \<open>to_dict_keys\<close>; it lives in the heap, since the
  cache and the orchestrator share it by reference.
\<close>

record AIResponse =
  resp_text :: string
  animation_type :: string
  mood :: string
  source :: string
  metadata :: pydict
  timestamp :: time

record response_dict =
  d_text :: string
  d_animation_type :: string
  d_mood :: string
  d_source :: string
  d_metadata :: pydict
  d_timestamp :: string

type_synonym ref = nat

record cache_entry =
  response :: ref
  expiry :: time

record AIConfigurationManager =
  subject_configs :: "SubjectMatter \<rightharpoonup> SubjectMatterConfig"
  fallback_responses :: "SubjectMatter \<rightharpoonup> FallbackResponse list"
  connectivity_status :: "AIProvider \<rightharpoonup> bool"
  last_sync_attempt :: "AIProvider \<rightharpoonup> time"
  response_cache :: "string \<rightharpoonup> cache_entry"

text \<open>
  \<^verbatim>\<open>OpenAIProvider\<close>: the configuration it was built from (the client itself is the
  external service). \<^verbatim>\<open>AIService\<close>: the provider objects by provider, and the manager.
\<close>

record OpenAIProvider =
  config :: AIModelConfig

record AIService =
  providers :: "AIProvider \<rightharpoonup> OpenAIProvider"
  config_manager :: AIConfigurationManager

section \<open>The environment\<close>

text \<open>
  What the external chat-completion call answers: the content of the first choice
  and the token count when the response has a usage field, or any failure (timeout,
  transport error, malformed response) with the message of the \<^verbatim>\<open>AIServiceError\<close>
  the adapter turns it into.
\<close>

datatype api_outcome = Completion string "int option" | ApiFailure string

text \<open>The observable effects, in the order they happen.\<close>

datatype event =
    EvGenerate AIModelConfig string string
  | EvSleep rat
  | EvConnectivity AIProvider

text \<open>
  The world outside the manager and the service: the clock \<^verbatim>\<open>datetime.utcnow()\<close>
  reads, which sleeping advances; the environment variables; the answer of the
  \<open>k\<close>-th completion call and the value of the \<open>k\<close>-th \<^verbatim>\<open>random()\<close>; the heap of
  response dictionaries; the trace of effects.
\<close>

record world =
  now :: time
  getenv :: "string \<rightharpoonup> string"
  api_answers :: "nat \<Rightarrow> api_outcome"
  api_calls :: nat
  random_values :: "nat \<Rightarrow> rat"
  random_calls :: nat
  heap :: "ref \<Rightarrow> response_dict"
  next_ref :: ref
  trace :: "event list"

text \<open>
  Functions of the Python runtime and standard library that the programme calls on
  strings and dictionaries. They are parameters: every theorem below that mentions
  \<open>rt\<close> holds for every choice of them.
\<close>

record pyrt =
  md5_hexdigest :: "string \<Rightarrow> string"
  json_dumps :: "pydict \<Rightarrow> string"
  dict_str :: "pydict \<Rightarrow> string"
  str_format :: "string \<Rightarrow> pydict \<Rightarrow> exn + string"
  str_lower :: "string \<Rightarrow> string"
  str_strip :: "string \<Rightarrow> string"
  isoformat :: "time \<Rightarrow> string"

section \<open>Configuration manager (ai\_config.py)\<close>

definition get_subject_config ::
  "AIConfigurationManager \<Rightarrow> SubjectMatter \<Rightarrow> SubjectMatterConfig option" where
  "get_subject_config mgr s = subject_configs mgr s"

text \<open>
  \<^verbatim>\<open>update_subject_config\<close>; writing the configuration file is outside the model.
\<close>

definition update_subject_config ::
  "AIConfigurationManager \<Rightarrow> SubjectMatter \<Rightarrow> SubjectMatterConfig \<Rightarrow> AIConfigurationManager" where
  "update_subject_config mgr s c = mgr\<lparr>subject_configs := (subject_configs mgr)(s \<mapsto> c)\<rparr>"

subsection \<open>Response cache\<close>

definition timedelta_hours :: "int \<Rightarrow> rat" where
  "timedelta_hours h = 3600 * of_int h"

definition timedelta_minutes :: "int \<Rightarrow> rat" where
  "timedelta_minutes m = 60 * of_int m"

definition cache_response ::
  "AIConfigurationManager \<Rightarrow> world \<Rightarrow> string \<Rightarrow> ref \<Rightarrow> int \<Rightarrow> AIConfigurationManager" where
  "cache_response mgr w cache_key r duration_hours =
     mgr\<lparr>response_cache := (response_cache mgr)
            (cache_key \<mapsto> \<lparr>response = r, expiry = now w + timedelta_hours duration_hours\<rparr>)\<rparr>"

text \<open>
  \<^verbatim>\<open>get_cached_response\<close>: the stored response (its reference) while the clock
  is before the expiry; otherwise an entry that exists is deleted and the answer
  is \<^verbatim>\<open>None\<close>.
\<close>

definition get_cached_response ::
  "AIConfigurationManager \<Rightarrow> world \<Rightarrow> string \<Rightarrow> ref option \<times> AIConfigurationManager" where
  "get_cached_response mgr w cache_key =
     (case response_cache mgr cache_key of
        None \<Rightarrow> (None, mgr)
      | Some cached \<Rightarrow>
          if now w < expiry cached then (Some (response cached), mgr)
          else (None, mgr\<lparr>response_cache := (response_cache mgr)(cache_key := None)\<rparr>))"

definition clear_cache :: "AIConfigurationManager \<Rightarrow> AIConfigurationManager" where
  "clear_cache mgr = mgr\<lparr>response_cache := Map.empty\<rparr>"

subsection \<open>Connectivity\<close>

definition datetime_min :: time where
  "datetime_min = - 62135596800"

definition log_event :: "event \<Rightarrow> world \<Rightarrow> world" where
  "log_event e w = w\<lparr>trace := trace w @ [e]\<rparr>"

text \<open>
  \<^verbatim>\<open>check_connectivity\<close>. Within five minutes of the last attempt the recorded
  status is returned; otherwise OpenAI counts as connected when both environment
  variables are set and not empty, every other provider counts as connected, and
  the result is recorded.
\<close>

definition env_set :: "world \<Rightarrow> string \<Rightarrow> bool" where
  "env_set w name = (case getenv w name of None \<Rightarrow> False | Some v \<Rightarrow> v \<noteq> [])"

definition check_connectivity ::
  "AIConfigurationManager \<Rightarrow> world \<Rightarrow> AIProvider \<Rightarrow> bool \<times> AIConfigurationManager \<times> world" where
  "check_connectivity mgr w0 p =
     (let w = log_event (EvConnectivity p) w0 in
      if p = FALLBACK then (True, mgr, w)
      else
        let last_attempt = (case last_sync_attempt mgr p of None \<Rightarrow> datetime_min | Some t \<Rightarrow> t) in
        if now w - last_attempt < timedelta_minutes 5
        then ((case connectivity_status mgr p of None \<Rightarrow> False | Some b \<Rightarrow> b), mgr, w)
        else
          let connected =
                (if p = OPENAI then env_set w ''OPENAI_API_KEY'' \<and> env_set w ''OPENAI_API_BASE''
                 else True)
          in (connected,
              mgr\<lparr>connectivity_status := (connectivity_status mgr)(p \<mapsto> connected),
                  last_sync_attempt := (last_sync_attempt mgr)(p \<mapsto> now w)\<rparr>,
              w))"

subsection \<open>Static fallback responses\<close>

text \<open>
  \<^verbatim>\<open>bisect.bisect_right(a, x, lo, hi)\<close>, the binary search \<^verbatim>\<open>random.choices\<close>
  uses. Reading \<^verbatim>\<open>a[mid]\<close> out of range raises.
\<close>

function bisect :: "rat list \<Rightarrow> rat \<Rightarrow> nat \<Rightarrow> nat \<Rightarrow> exn + nat" where
  "bisect a x lo hi =
     (if lo < hi then
        (let mid = (lo + hi) div 2 in
         if mid < length a then
           (if x < a ! mid then bisect a x lo mid else bisect a x (mid + 1) hi)
         else Inl (IndexError ''list index out of range''))
      else Inr lo)"
  by pat_completeness auto
termination
  by (relation "measure (\<lambda>(a, x, lo, hi). hi - lo)") auto

fun accumulate_from :: "int \<Rightarrow> int list \<Rightarrow> int list" where
  "accumulate_from acc [] = []"
| "accumulate_from acc (x # xs) = (acc + x) # accumulate_from (acc + x) xs"

definition accumulate :: "int list \<Rightarrow> int list" where
  "accumulate ws = accumulate_from 0 ws"

text \<open>
  \<^verbatim>\<open>random.choices(population, weights=weights, k=1)[0]\<close> (Python 3.9 and later,
  which \<^verbatim>\<open>asyncio.to_thread\<close> in the service requires): a total weight that is
  not positive raises \<^verbatim>\<open>ValueError\<close>; otherwise one \<^verbatim>\<open>random()\<close> is drawn and the
  element at the bisection point of the cumulative weights is returned.
\<close>

definition random_choices :: "world \<Rightarrow> 'a list \<Rightarrow> int list \<Rightarrow> (exn + 'a) \<times> world" where
  "random_choices w population weights =
     (let n = length population;
          cum_weights = accumulate weights
      in if length cum_weights \<noteq> n
         then (Inl (ValueError ''The number of weights does not match the population''), w)
         else if cum_weights = [] then (Inl (IndexError ''list index out of range''), w)
         else
           let total = (of_int (last cum_weights) :: rat) in
           if total \<le> 0 then (Inl (ValueError ''Total of weights must be greater than zero''), w)
           else
             let u = random_values w (random_calls w);
                 w' = w\<lparr>random_calls := Suc (random_calls w)\<rparr>
             in case bisect (map of_int cum_weights) (u * total) 0 (n - 1) of
                  Inl e \<Rightarrow> (Inl e, w')
                | Inr i \<Rightarrow>
                    if i < n then (Inr (population ! i), w')
                    else (Inl (IndexError ''list index out of range''), w'))"

text \<open>
  The text of the generic response begins and ends with an emoji (UTF-8 bytes).
\<close>

definition generic_response_text :: string where
  "generic_response_text =
     [CHR 0xF0, CHR 0x9F, CHR 0x8E, CHR 0x82]
     @ '' Sweet! Let's keep the productivity celebration going! ''
     @ [CHR 0xE2, CHR 0x9C, CHR 0xA8]"

definition generic_fallback :: "world \<Rightarrow> SubjectMatter \<Rightarrow> pyval \<Rightarrow> FallbackResponse" where
  "generic_fallback w s context_type =
     \<lparr>fb_subject = s, fb_context_type = context_type, fb_mood = ''cheerful'',
      response_text = generic_response_text, fb_animation_type = ''bounce'',
      weight = 1, created_at = now w\<rparr>"

definition stored_responses :: "AIConfigurationManager \<Rightarrow> SubjectMatter \<Rightarrow> FallbackResponse list" where
  "stored_responses mgr s = (case fallback_responses mgr s of None \<Rightarrow> [] | Some rs \<Rightarrow> rs)"

text \<open>
  The two filters of \<^verbatim>\<open>get_fallback_response\<close>: by context type, kept only when
  something matches; then, for a mood that is true as a condition, by mood, kept
  only when something matches.
\<close>

definition fallback_candidates ::
  "FallbackResponse list \<Rightarrow> pyval \<Rightarrow> pyval \<Rightarrow> FallbackResponse list" where
  "fallback_candidates responses context_type m =
     (let filtered = filter (\<lambda>r. py_eq (fb_context_type r) context_type) responses;
          filtered_responses = (if filtered = [] then responses else filtered)
      in if truthy m then
           (let mood_filtered = filter (\<lambda>r. py_eq (PStr (fb_mood r)) m) filtered_responses
            in if mood_filtered \<noteq> [] then mood_filtered else filtered_responses)
         else filtered_responses)"

definition get_fallback_response ::
  "AIConfigurationManager \<Rightarrow> world \<Rightarrow> SubjectMatter \<Rightarrow> pyval \<Rightarrow> pyval
     \<Rightarrow> (exn + FallbackResponse) \<times> world" where
  "get_fallback_response mgr w s context_type m =
     (let responses = stored_responses mgr s in
      if responses = [] then (Inr (generic_fallback w s context_type), w)
      else
        let filtered_responses = fallback_candidates responses context_type m
        in random_choices w filtered_responses (map weight filtered_responses))"

definition add_fallback_response ::
  "AIConfigurationManager \<Rightarrow> FallbackResponse \<Rightarrow> AIConfigurationManager" where
  "add_fallback_response mgr r =
     mgr\<lparr>fallback_responses := (fallback_responses mgr)
            (fb_subject r \<mapsto> stored_responses mgr (fb_subject r) @ [r])\<rparr>"

section \<open>Provider adapter and responses (ai\_service.py)\<close>

definition init_params :: "string list" where
  "init_params = [''text'', ''animation_type'', ''mood'', ''source'', ''metadata'']"

definition to_dict_keys :: "string list" where
  "to_dict_keys = [''text'', ''animation_type'', ''mood'', ''source'', ''metadata'', ''timestamp'']"

definition to_dict :: "pyrt \<Rightarrow> AIResponse \<Rightarrow> response_dict" where
  "to_dict rt r =
     \<lparr>d_text = resp_text r, d_animation_type = animation_type r, d_mood = mood r,
      d_source = source r, d_metadata = metadata r,
      d_timestamp = isoformat rt (timestamp r)\<rparr>"

text \<open>
  \<^verbatim>\<open>AIResponse(**d)\<close> for a dictionary \<open>d\<close> made by \<^verbatim>\<open>to_dict\<close>: a key that is not
  a parameter of \<^verbatim>\<open>__init__\<close> raises \<^verbatim>\<open>TypeError\<close>; otherwise the object is built,
  with the clock as its timestamp.
\<close>

definition AIResponse_kwargs :: "world \<Rightarrow> response_dict \<Rightarrow> exn + AIResponse" where
  "AIResponse_kwargs w d =
     (case filter (\<lambda>k. k \<notin> set init_params) to_dict_keys of
        [] \<Rightarrow> Inr \<lparr>resp_text = d_text d, animation_type = d_animation_type d,
                   mood = d_mood d, source = d_source d, metadata = d_metadata d,
                   timestamp = now w\<rparr>
      | k # _ \<Rightarrow> Inl (TypeError (''__init__() got an unexpected keyword argument '' @ k)))"

definition alloc :: "response_dict \<Rightarrow> world \<Rightarrow> ref \<times> world" where
  "alloc d w = (next_ref w, w\<lparr>heap := (heap w)(next_ref w := d), next_ref := Suc (next_ref w)\<rparr>)"

text \<open>\<^verbatim>\<open>asyncio.sleep(d)\<close>: a delay that is not positive returns at once.\<close>

definition sleep :: "rat \<Rightarrow> world \<Rightarrow> world" where
  "sleep d w = log_event (EvSleep d) (w\<lparr>now := now w + max 0 d\<rparr>)"

text \<open>\<^verbatim>\<open>word in text\<close> on strings.\<close>

fun contains :: "string \<Rightarrow> string \<Rightarrow> bool" where
  "contains wd [] = (wd = [])"
| "contains wd (c # cs) = (take (length wd) (c # cs) = wd \<or> contains wd cs)"

definition parse_response_metadata :: "pyrt \<Rightarrow> string \<Rightarrow> string \<times> string" where
  "parse_response_metadata rt txt =
     (let t = str_lower rt txt in
      if list_ex (\<lambda>wd. contains wd t) [''amazing'', ''incredible'', ''fantastic'']
      then (''excited'', ''celebration_bounce'')
      else if list_ex (\<lambda>wd. contains wd t) [''gentle'', ''soft'', ''calm'']
      then (''gentle'', ''gentle_sway'')
      else if list_ex (\<lambda>wd. contains wd t) [''celebrate'', ''party'', ''woohoo'']
      then (''celebratory'', ''confetti_explosion'')
      else (''cheerful'', ''bounce''))"

text \<open>
  \<^verbatim>\<open>OpenAIProvider.generate_response\<close>: one completion call. Every failure inside
  it, the timeout included, leaves as \<^verbatim>\<open>AIServiceError\<close>.
\<close>

definition OpenAIProvider_generate_response ::
  "pyrt \<Rightarrow> OpenAIProvider \<Rightarrow> world \<Rightarrow> string \<Rightarrow> string \<Rightarrow> pydict \<Rightarrow> (exn + AIResponse) \<times> world" where
  "OpenAIProvider_generate_response rt p w0 sys_prompt user_prompt context =
     (let w = (log_event (EvGenerate (config p) sys_prompt user_prompt) w0)
                \<lparr>api_calls := Suc (api_calls w0)\<rparr>
      in case api_answers w0 (api_calls w0) of
           ApiFailure msg \<Rightarrow> (Inl (AIServiceError msg), w)
         | Completion content tokens \<Rightarrow>
             let txt = str_strip rt content;
                 (m, animation) = parse_response_metadata rt txt
             in (Inr \<lparr>resp_text = txt, animation_type = animation, mood = m,
                      source = ''ai'',
                      metadata = [(''model'', PStr (model_name (config p))),
                                  (''provider'', PStr ''openai''),
                                  (''tokens_used'', (case tokens of None \<Rightarrow> PNone | Some n \<Rightarrow> PInt n))],
                      timestamp = now w\<rparr>, w))"

section \<open>Orchestrator (AIService)\<close>

definition generate_cache_key :: "pyrt \<Rightarrow> SubjectMatter \<Rightarrow> pydict \<Rightarrow> string" where
  "generate_cache_key rt s context =
     md5_hexdigest rt (subject_value s @ '':'' @ json_dumps rt context)"

fun is_KeyError :: "exn \<Rightarrow> bool" where
  "is_KeyError (KeyError _) = True"
| "is_KeyError _ = False"

fun is_AIServiceError :: "exn \<Rightarrow> bool" where
  "is_AIServiceError (AIServiceError _) = True"
| "is_AIServiceError _ = False"

text \<open>
  \<^verbatim>\<open>_format_user_prompt\<close>: without a configuration or a template a generic prompt;
  otherwise \<^verbatim>\<open>template.format(**context)\<close>, where \<^verbatim>\<open>KeyError\<close> is caught and
  answered by another generic prompt, and any other exception leaves the function.
\<close>

definition format_user_prompt ::
  "pyrt \<Rightarrow> AIConfigurationManager \<Rightarrow> SubjectMatter \<Rightarrow> pydict \<Rightarrow> exn + string" where
  "format_user_prompt rt mgr s context =
     (case get_subject_config mgr s of
        None \<Rightarrow>
          Inr (''Generate a response for '' @ subject_value s @ '' with context: ''
               @ dict_str rt context)
      | Some cfg \<Rightarrow>
          if context_template cfg = [] then
            Inr (''Generate a response for '' @ subject_value s @ '' with context: ''
                 @ dict_str rt context)
          else
            (case str_format rt (context_template cfg) context of
               Inr prompt \<Rightarrow> Inr prompt
             | Inl e \<Rightarrow>
                 if is_KeyError e then
                   Inr (''Generate a response for '' @ subject_value s
                        @ '' with available context: '' @ dict_str rt context)
                 else Inl e))"

text \<open>\<^verbatim>\<open>_get_fallback_response\<close>: the static response as an \<^verbatim>\<open>AIResponse\<close>.\<close>

definition get_static_response ::
  "AIConfigurationManager \<Rightarrow> world \<Rightarrow> SubjectMatter \<Rightarrow> pydict \<Rightarrow> (exn + AIResponse) \<times> world" where
  "get_static_response mgr w s context =
     (let context_type = dict_get context ''context_type'' (PStr ''general'');
          m = dict_get context ''mood'' (PStr ''cheerful'')
      in case get_fallback_response mgr w s context_type m of
           (Inl e, w') \<Rightarrow> (Inl e, w')
         | (Inr fallback, w') \<Rightarrow>
             (Inr \<lparr>resp_text = response_text fallback,
                   animation_type = fb_animation_type fallback,
                   mood = fb_mood fallback,
                   source = ''fallback'',
                   metadata = [(''fallback_reason'', PStr ''ai_unavailable''),
                               (''context_type'', context_type)],
                   timestamp = now w'\<rparr>, w'))"

text \<open>
  \<^verbatim>\<open>_try_fallback_model\<close>: one call of the secondary model when it is configured,
  is not the static provider and has a provider object; every exception of that
  attempt is swallowed. Otherwise, and after a failure, the static response.
\<close>

definition try_fallback_model ::
  "pyrt \<Rightarrow> AIService \<Rightarrow> world \<Rightarrow> SubjectMatter \<Rightarrow> pydict \<Rightarrow> SubjectMatterConfig
     \<Rightarrow> (exn + AIResponse) \<times> world" where
  "try_fallback_model rt svc w s context cfg =
     (case fallback_model cfg of
        None \<Rightarrow> get_static_response (config_manager svc) w s context
      | Some fm \<Rightarrow>
          if provider fm \<noteq> FALLBACK then
            (case providers svc (provider fm) of
               None \<Rightarrow> get_static_response (config_manager svc) w s context
             | Some fallback_provider \<Rightarrow>
                 (case format_user_prompt rt (config_manager svc) s context of
                    Inl e \<Rightarrow> get_static_response (config_manager svc) w s context
                  | Inr user_prompt \<Rightarrow>
                      (case OpenAIProvider_generate_response rt fallback_provider w
                              (system_prompt cfg) user_prompt context of
                         (Inr r, w') \<Rightarrow> (Inr (r\<lparr>source := ''fallback_ai''\<rparr>), w')
                       | (Inl e, w') \<Rightarrow> get_static_response (config_manager svc) w' s context)))
          else get_static_response (config_manager svc) w s context)"

text \<open>
  The retry loop of \<^verbatim>\<open>_generate_ai_response\<close>: \<open>attempt\<close> is the loop variable,
  \<open>remaining\<close> the number of iterations left of \<^verbatim>\<open>range(retry_attempts)\<close>.
\<close>

fun retry_loop ::
  "pyrt \<Rightarrow> OpenAIProvider \<Rightarrow> SubjectMatterConfig \<Rightarrow> string \<Rightarrow> pydict \<Rightarrow> nat \<Rightarrow> nat
     \<Rightarrow> exn option \<Rightarrow> world \<Rightarrow> (exn + AIResponse) \<times> world" where
  "retry_loop rt p cfg user_prompt context attempt 0 last_error w =
     (Inl (case last_error of
             Some e \<Rightarrow> e
           | None \<Rightarrow> AIServiceError ''AI generation failed after retries''), w)"
| "retry_loop rt p cfg user_prompt context attempt (Suc remaining) last_error w =
     (case OpenAIProvider_generate_response rt p w (system_prompt cfg) user_prompt context of
        (Inr r, w') \<Rightarrow> (Inr r, w')
      | (Inl e, w') \<Rightarrow>
          if is_AIServiceError e then
            retry_loop rt p cfg user_prompt context (Suc attempt) remaining (Some e)
              (if int attempt < retry_attempts (primary_model cfg) - 1
               then sleep (retry_delay (primary_model cfg) * (of_nat attempt + 1)) w'
               else w')
          else (Inl e, w'))"

definition generate_ai_response ::
  "pyrt \<Rightarrow> AIService \<Rightarrow> world \<Rightarrow> SubjectMatterConfig \<Rightarrow> pydict \<Rightarrow> (exn + AIResponse) \<times> world" where
  "generate_ai_response rt svc w cfg context =
     (case providers svc (provider (primary_model cfg)) of
        None \<Rightarrow>
          (Inl (AIServiceError (''Provider '' @ provider_value (provider (primary_model cfg))
                                @ '' not available'')), w)
      | Some p \<Rightarrow>
          (case format_user_prompt rt (config_manager svc) (subject cfg) context of
             Inl e \<Rightarrow> (Inl e, w)
           | Inr user_prompt \<Rightarrow>
               retry_loop rt p cfg user_prompt context 0
                 (nat (retry_attempts (primary_model cfg))) None w))"

text \<open>
  The body of the \<^verbatim>\<open>try\<close> statement of \<^verbatim>\<open>generate_response\<close>: the connectivity
  check unless \<^verbatim>\<open>force_ai\<close>, the primary model, the cache write.
\<close>

definition try_primary ::
  "pyrt \<Rightarrow> AIService \<Rightarrow> world \<Rightarrow> SubjectMatter \<Rightarrow> pydict \<Rightarrow> SubjectMatterConfig \<Rightarrow> bool
     \<Rightarrow> (exn + AIResponse) \<times> AIService \<times> world" where
  "try_primary rt svc w s context cfg force_ai =
     (let (provider_available, svc1, w1) =
            (if \<not> force_ai then
               (let (b, mgr', w') =
                      check_connectivity (config_manager svc) w (provider (primary_model cfg))
                in (b, svc\<lparr>config_manager := mgr'\<rparr>, w'))
             else (True, svc, w))
      in if \<not> provider_available then
           (let (res, w2) = try_fallback_model rt svc1 w1 s context cfg in (res, svc1, w2))
         else
           (case generate_ai_response rt svc1 w1 cfg context of
              (Inl e, w2) \<Rightarrow> (Inl e, svc1, w2)
            | (Inr ai_response, w2) \<Rightarrow>
                if cache_responses cfg then
                  (let cache_key = generate_cache_key rt s context;
                       (r, w3) = alloc (to_dict rt ai_response) w2
                   in (Inr ai_response,
                       svc1\<lparr>config_manager :=
                              cache_response (config_manager svc1) w3 cache_key r
                                (cache_duration_hours cfg)\<rparr>,
                       w3))
                else (Inr ai_response, svc1, w2)))"

text \<open>
  \<^verbatim>\<open>AIService.generate_response(subject, context, force_ai)\<close>. The result is the
  response or the exception that leaves the call, with the service and the world
  as the call leaves them.
\<close>

definition generate_response ::
  "pyrt \<Rightarrow> AIService \<Rightarrow> world \<Rightarrow> SubjectMatter \<Rightarrow> pydict option \<Rightarrow> bool
     \<Rightarrow> (exn + AIResponse) \<times> AIService \<times> world" where
  "generate_response rt svc w s context_arg force_ai =
     (let context = (case context_arg of None \<Rightarrow> [] | Some c \<Rightarrow> c) in
      case get_subject_config (config_manager svc) s of
        None \<Rightarrow>
          (let (res, w') = get_static_response (config_manager svc) w s context
           in (res, svc, w'))
      | Some cfg \<Rightarrow>
          (let (cached_response, svc0) =
                 (if \<not> force_ai \<and> cache_responses cfg then
                    (let (c, mgr') = get_cached_response (config_manager svc) w
                                       (generate_cache_key rt s context)
                     in (c, svc\<lparr>config_manager := mgr'\<rparr>))
                  else (None, svc))
           in case cached_response of
                Some r \<Rightarrow>
                  (let w1 = w\<lparr>heap := (heap w)(r := (heap w r)\<lparr>d_source := ''cache''\<rparr>)\<rparr>
                   in (AIResponse_kwargs w1 (heap w1 r), svc0, w1))
              | None \<Rightarrow>
                  (case try_primary rt svc0 w s context cfg force_ai of
                     (Inr res, svc1, w1) \<Rightarrow> (Inr res, svc1, w1)
                   | (Inl e, svc1, w1) \<Rightarrow>
                       if is_AIServiceError e then
                         (let (res, w2) = try_fallback_model rt svc1 w1 s context cfg
                          in (res, svc1, w2))
                       else
                         (let (res, w2) = get_static_response (config_manager svc1) w1 s context
                          in (res, svc1, w2)))))"

section \<open>Administrative update (admin.py)\<close>

definition all_subjects :: "SubjectMatter list" where
  "all_subjects =
     [TASK_CREATION, TASK_COMPLETION, MOTIVATION, CELEBRATION, ENCOURAGEMENT,
      PRODUCTIVITY_TIPS, GOAL_SETTING, TIME_MANAGEMENT, HABIT_FORMATION,
      STRESS_MANAGEMENT, TEAM_COLLABORATION, PROJECT_PLANNING]"

definition all_providers :: "AIProvider list" where
  "all_providers = [OPENAI, ANTHROPIC, LOCAL, FALLBACK]"

text \<open>\<^verbatim>\<open>SubjectMatter(name)\<close> and \<^verbatim>\<open>AIProvider(name)\<close>; \<open>None\<close> is \<^verbatim>\<open>ValueError\<close>.\<close>

definition subject_of_value :: "string \<Rightarrow> SubjectMatter option" where
  "subject_of_value v = find (\<lambda>s. subject_value s = v) all_subjects"

definition provider_of_value :: "string \<Rightarrow> AIProvider option" where
  "provider_of_value v = find (\<lambda>p. provider_value p = v) all_providers"

text \<open>
  The JSON body of the update, with the types the configuration fields have; a
  field is \<open>None\<close> when the key is absent.
\<close>

record model_update =
  u_provider :: "string option"
  u_model_name :: "string option"
  u_api_key :: "string option option"
  u_api_base :: "string option option"
  u_max_tokens :: "int option"
  u_temperature :: "rat option"
  u_timeout :: "int option"

record update_request =
  req_primary_model :: "model_update option"
  req_system_prompt :: "string option"
  req_context_template :: "string option"
  req_cache_responses :: "bool option"
  req_cache_duration_hours :: "int option"

text \<open>The HTTP answer: status code, success flag, message.\<close>

datatype http_response = Response nat bool string

definition or_else :: "'a option \<Rightarrow> 'a \<Rightarrow> 'a" where
  "or_else x dflt = (case x of None \<Rightarrow> dflt | Some v \<Rightarrow> v)"

text \<open>
  The new primary model of the update: \<^verbatim>\<open>AIModelConfig(...)\<close> with the given
  fields, the current ones where a key is absent, and the dataclass defaults for
  the retry fields; \<open>None\<close> when \<^verbatim>\<open>AIProvider(...)\<close> raises \<^verbatim>\<open>ValueError\<close>.
\<close>

definition updated_primary_model :: "AIModelConfig \<Rightarrow> model_update \<Rightarrow> AIModelConfig option" where
  "updated_primary_model cur md =
     (case provider_of_value (or_else (u_provider md) (provider_value (provider cur))) of
        None \<Rightarrow> None
      | Some p \<Rightarrow>
          Some \<lparr>provider = p,
                model_name = or_else (u_model_name md) (model_name cur),
                api_key = or_else (u_api_key md) (api_key cur),
                api_base = or_else (u_api_base md) (api_base cur),
                max_tokens = or_else (u_max_tokens md) (max_tokens cur),
                temperature = or_else (u_temperature md) (temperature cur),
                timeout = or_else (u_timeout md) (timeout cur),
                retry_attempts = 3,
                retry_delay = 1\<rparr>)"

text \<open>
  \<^verbatim>\<open>update_subject_configuration(current_user, subject)\<close> for an authenticated
  caller; a request without a JSON body raises inside and is answered with 500.
\<close>

definition update_subject_configuration ::
  "AIConfigurationManager \<Rightarrow> string \<Rightarrow> update_request option
     \<Rightarrow> http_response \<times> AIConfigurationManager" where
  "update_subject_configuration mgr subject_name body =
     (case subject_of_value subject_name of
        None \<Rightarrow> (Response 422 False ''Invalid subject matter'', mgr)
      | Some subject_enum \<Rightarrow>
          (case body of
             None \<Rightarrow> (Response 500 False ''Failed to update configuration'', mgr)
           | Some req \<Rightarrow>
               (case get_subject_config mgr subject_enum of
                  None \<Rightarrow> (Response 404 False ''Subject configuration not found'', mgr)
                | Some current_config \<Rightarrow>
                    (case (case req_primary_model req of
                             None \<Rightarrow> Some current_config
                           | Some md \<Rightarrow>
                               map_option (\<lambda>pm. current_config\<lparr>primary_model := pm\<rparr>)
                                 (updated_primary_model (primary_model current_config) md)) of
                       None \<Rightarrow> (Response 422 False ''Invalid provider'', mgr)
                     | Some c1 \<Rightarrow>
                         (let c2 = c1\<lparr>system_prompt := or_else (req_system_prompt req) (system_prompt c1)\<rparr>;
                              c3 = c2\<lparr>context_template :=
                                         or_else (req_context_template req) (context_template c2)\<rparr>;
                              c4 = c3\<lparr>cache_responses :=
                                         or_else (req_cache_responses req) (cache_responses c3)\<rparr>;
                              c5 = c4\<lparr>cache_duration_hours :=
                                         or_else (req_cache_duration_hours req) (cache_duration_hours c4)\<rparr>
                          in (Response 200 True (''Configuration updated for '' @ subject_name),
                              update_subject_config mgr subject_enum c5))))))"

section \<open>The state at startup\<close>

text \<open>\<^verbatim>\<open>_load_fallback_responses\<close>; \<open>t\<close> is the clock when the responses are built.\<close>

definition fallbacks_TASK_CREATION :: "time \<Rightarrow> FallbackResponse list" where
  "fallbacks_TASK_CREATION t =
    [\<lparr>fb_subject = TASK_CREATION, fb_context_type = PStr ''general'', fb_mood = ''cheerful'',
      response_text =
        [CHR 0xF0, CHR 0x9F, CHR 0x8E, CHR 0x82]
        @ '' Wonderful! A new task to celebrate! Let''
        @ [CHR 0x27]
        @ ''s make this one extra sweet! ''
        @ [CHR 0xE2, CHR 0x9C, CHR 0xA8],
      fb_animation_type = ''bounce'', weight = 3, created_at = t\<rparr>,
     \<lparr>fb_subject = TASK_CREATION, fb_context_type = PStr ''high_priority'', fb_mood = ''encouraging'',
      response_text =
        [CHR 0xF0, CHR 0x9F, CHR 0x8D, CHR 0xB0]
        @ '' Important task ahead! You''
        @ [CHR 0x27]
        @ ''ve got the skills to make it delicious! ''
        @ [CHR 0xF0, CHR 0x9F, CHR 0x92, CHR 0xAA],
      fb_animation_type = ''glow'', weight = 2, created_at = t\<rparr>,
     \<lparr>fb_subject = TASK_CREATION, fb_context_type = PStr ''difficult'', fb_mood = ''supportive'',
      response_text =
        [CHR 0xF0, CHR 0x9F, CHR 0xA7, CHR 0x81]
        @ '' Challenging tasks make the sweetest victories! I believe ''
        @ ''in you! ''
        @ [CHR 0xF0, CHR 0x9F, CHR 0x8C, CHR 0x9F],
      fb_animation_type = ''warm_glow'', weight = 2, created_at = t\<rparr>]"

definition fallbacks_TASK_COMPLETION :: "time \<Rightarrow> FallbackResponse list" where
  "fallbacks_TASK_COMPLETION t =
    [\<lparr>fb_subject = TASK_COMPLETION, fb_context_type = PStr ''general'', fb_mood = ''celebratory'',
      response_text =
        [CHR 0xF0, CHR 0x9F, CHR 0x8E, CHR 0x89]
        @ '' Sweet success! You''
        @ [CHR 0x27]
        @ ''ve earned another slice of productivity! Time to celebrate! ''
        @ [CHR 0xF0, CHR 0x9F, CHR 0x8D, CHR 0xB0],
      fb_animation_type = ''celebration_bounce'', weight = 3, created_at = t\<rparr>,
     \<lparr>fb_subject = TASK_COMPLETION, fb_context_type = PStr ''streak'', fb_mood = ''excited'',
      response_text =
        [CHR 0xF0, CHR 0x9F, CHR 0x94, CHR 0xA5]
        @ '' Amazing streak! You''
        @ [CHR 0x27]
        @ ''re on a roll that''
        @ [CHR 0x27]
        @ ''s sweeter than my frosting! ''
        @ [CHR 0xF0, CHR 0x9F, CHR 0x8E, CHR 0x8A],
      fb_animation_type = ''confetti_explosion'', weight = 2, created_at = t\<rparr>,
     \<lparr>fb_subject = TASK_COMPLETION, fb_context_type = PStr ''difficult'', fb_mood = ''proud'',
      response_text =
        [CHR 0xF0, CHR 0x9F, CHR 0x8F, CHR 0x86]
        @ '' Incredible! You conquered that challenge like a true cake ''
        @ ''master! ''
        @ [CHR 0xF0, CHR 0x9F, CHR 0x91, CHR 0x91],
      fb_animation_type = ''victory_dance'', weight = 2, created_at = t\<rparr>]"

definition fallbacks_MOTIVATION :: "time \<Rightarrow> FallbackResponse list" where
  "fallbacks_MOTIVATION t =
    [\<lparr>fb_subject = MOTIVATION, fb_context_type = PStr ''low_energy'', fb_mood = ''gentle'',
      response_text =
        [CHR 0xF0, CHR 0x9F, CHR 0x8E, CHR 0x82]
        @ '' Every expert baker started with their first cupcake! You''
        @ [CHR 0x27]
        @ ''re doing great! ''
        @ [CHR 0xF0, CHR 0x9F, CHR 0x92, CHR 0x95],
      fb_animation_type = ''gentle_sway'', weight = 3, created_at = t\<rparr>,
     \<lparr>fb_subject = MOTIVATION, fb_context_type = PStr ''overwhelmed'', fb_mood = ''supportive'',
      response_text =
        [CHR 0xF0, CHR 0x9F, CHR 0x8D, CHR 0xB0]
        @ '' Take it one sprinkle at a time! Big cakes are made layer ''
        @ ''by layer! ''
        @ [CHR 0xF0, CHR 0x9F, CHR 0x8C, CHR 0x88],
      fb_animation_type = ''warm_glow'', weight = 2, created_at = t\<rparr>]"

definition fallbacks_ENCOURAGEMENT :: "time \<Rightarrow> FallbackResponse list" where
  "fallbacks_ENCOURAGEMENT t =
    [\<lparr>fb_subject = ENCOURAGEMENT, fb_context_type = PStr ''setback'', fb_mood = ''understanding'',
      response_text =
        [CHR 0xF0, CHR 0x9F, CHR 0xA7, CHR 0x81]
        @ '' Even the best bakers have batches that don''
        @ [CHR 0x27]
        @ ''t turn out perfect. Let''
        @ [CHR 0x27]
        @ ''s try again! ''
        @ [CHR 0xF0, CHR 0x9F, CHR 0x92, CHR 0xAA],
      fb_animation_type = ''gentle_bounce'', weight = 3, created_at = t\<rparr>,
     \<lparr>fb_subject = ENCOURAGEMENT, fb_context_type = PStr ''doubt'', fb_mood = ''reassuring'',
      response_text =
        [CHR 0xF0, CHR 0x9F, CHR 0x8E, CHR 0x82]
        @ '' You''
        @ [CHR 0x27]
        @ ''re not behind, you''
        @ [CHR 0x27]
        @ ''re just preparing for an even sweeter success! ''
        @ [CHR 0xE2, CHR 0x9C, CHR 0xA8],
      fb_animation_type = ''warm_glow'', weight = 2, created_at = t\<rparr>]"

definition load_fallback_responses :: "time \<Rightarrow> SubjectMatter \<rightharpoonup> FallbackResponse list" where
  "load_fallback_responses t =
     [TASK_CREATION \<mapsto> fallbacks_TASK_CREATION t,
      TASK_COMPLETION \<mapsto> fallbacks_TASK_COMPLETION t,
      MOTIVATION \<mapsto> fallbacks_MOTIVATION t,
      ENCOURAGEMENT \<mapsto> fallbacks_ENCOURAGEMENT t]"

text \<open>\<^verbatim>\<open>_create_default_configuration\<close>, used when there is no configuration file.\<close>

definition system_prompt_TASK_CREATION :: string where
  "system_prompt_TASK_CREATION =
     ''You are a cheerful Birthday Cake AI assistant helping users ''
     @ ''create tasks. ''
     @ [CHR 0x0A]
     @ ''                Respond with encouraging, cake-themed messages ''
     @ ''that motivate task creation. ''
     @ [CHR 0x0A]
     @ ''                Keep responses under 100 characters and include ''
     @ ''cake/celebration emojis.''"

definition context_template_TASK_CREATION :: string where
  "context_template_TASK_CREATION =
     ''User is creating a task: {task_title} with priority {priority} ''
     @ ''and difficulty {difficulty}''"

definition system_prompt_TASK_COMPLETION :: string where
  "system_prompt_TASK_COMPLETION =
     ''You are an enthusiastic Birthday Cake AI celebrating task ''
     @ ''completion. ''
     @ [CHR 0x0A]
     @ ''                Respond with joyful, celebratory messages ''
     @ ''that acknowledge the user''
     @ [CHR 0x27]
     @ ''s achievement. ''
     @ [CHR 0x0A]
     @ ''                Include celebration emojis and cake-themed ''
     @ ''language.''"

definition context_template_TASK_COMPLETION :: string where
  "context_template_TASK_COMPLETION =
     ''User completed task: {task_title} in {duration} minutes, difficulty ''
     @ ''{difficulty}, streak: {streak}''"

definition system_prompt_MOTIVATION :: string where
  "system_prompt_MOTIVATION =
     ''You are a supportive Birthday Cake AI providing motivation. ''
     @ [CHR 0x0A]
     @ ''                Give encouraging, uplifting messages that ''
     @ ''inspire productivity. ''
     @ [CHR 0x0A]
     @ ''                Use sweet, cake-themed metaphors and positive ''
     @ ''language.''"

definition context_template_MOTIVATION :: string where
  "context_template_MOTIVATION =
     ''User needs motivation. Current streak: {streak}, completed ''
     @ ''tasks: {completed_tasks}, mood: {mood}''"

definition system_prompt_CELEBRATION :: string where
  "system_prompt_CELEBRATION =
     ''You are an excited Birthday Cake AI leading celebrations. ''
     @ [CHR 0x0A]
     @ ''                Create enthusiastic, party-themed responses ''
     @ ''for achievements and milestones. ''
     @ [CHR 0x0A]
     @ ''                Use lots of celebration emojis and festive ''
     @ ''language.''"

definition context_template_CELEBRATION :: string where
  "context_template_CELEBRATION =
     ''Celebrating: {achievement_type} - {achievement_details}''"

definition system_prompt_ENCOURAGEMENT :: string where
  "system_prompt_ENCOURAGEMENT =
     ''You are a gentle, supportive Birthday Cake AI offering encouragement. ''
     @ [CHR 0x0A]
     @ ''                Provide warm, understanding messages that ''
     @ ''help users overcome challenges. ''
     @ [CHR 0x0A]
     @ ''                Use comforting, sweet language with cake metaphors.''"

definition context_template_ENCOURAGEMENT :: string where
  "context_template_ENCOURAGEMENT =
     ''User needs encouragement. Challenge: {challenge}, current_state: ''
     @ ''{state}''"

definition system_prompt_PRODUCTIVITY_TIPS :: string where
  "system_prompt_PRODUCTIVITY_TIPS =
     ''You are a wise Birthday Cake AI sharing productivity wisdom. ''
     @ [CHR 0x0A]
     @ ''                Provide practical, actionable productivity ''
     @ ''tips with a sweet, cake-themed twist. ''
     @ [CHR 0x0A]
     @ ''                Make advice memorable and fun.''"

definition context_template_PRODUCTIVITY_TIPS :: string where
  "context_template_PRODUCTIVITY_TIPS =
     ''User asking for productivity help with: {topic}, experience_level: ''
     @ ''{level}''"

definition default_openai :: "world \<Rightarrow> AIModelConfig" where
  "default_openai w =
     \<lparr>provider = OPENAI, model_name = ''gpt-3.5-turbo'',
      api_key = getenv w ''OPENAI_API_KEY'', api_base = getenv w ''OPENAI_API_BASE'',
      max_tokens = 150, temperature = 8 / 10, timeout = 10,
      retry_attempts = 3, retry_delay = 1\<rparr>"

definition fallback_config :: AIModelConfig where
  "fallback_config =
     \<lparr>provider = FALLBACK, model_name = ''static_responses'',
      api_key = None, api_base = None,
      max_tokens = 150, temperature = 7 / 10, timeout = 1,
      retry_attempts = 3, retry_delay = 1\<rparr>"

definition default_subject_config ::
  "world \<Rightarrow> SubjectMatter \<Rightarrow> string \<Rightarrow> string \<Rightarrow> SubjectMatterConfig" where
  "default_subject_config w s sys_prompt template =
     \<lparr>subject = s, primary_model = default_openai w, fallback_model = Some fallback_config,
      system_prompt = sys_prompt, context_template = template,
      response_format = ''text'', max_context_length = 1000,
      cache_responses = True, cache_duration_hours = 24\<rparr>"

definition create_default_configuration :: "world \<Rightarrow> SubjectMatter \<rightharpoonup> SubjectMatterConfig" where
  "create_default_configuration w =
     [TASK_CREATION \<mapsto> default_subject_config w TASK_CREATION
                         system_prompt_TASK_CREATION context_template_TASK_CREATION,
      TASK_COMPLETION \<mapsto> default_subject_config w TASK_COMPLETION
                           system_prompt_TASK_COMPLETION context_template_TASK_COMPLETION,
      MOTIVATION \<mapsto> default_subject_config w MOTIVATION
                      system_prompt_MOTIVATION context_template_MOTIVATION,
      CELEBRATION \<mapsto> default_subject_config w CELEBRATION
                       system_prompt_CELEBRATION context_template_CELEBRATION,
      ENCOURAGEMENT \<mapsto> default_subject_config w ENCOURAGEMENT
                         system_prompt_ENCOURAGEMENT context_template_ENCOURAGEMENT,
      PRODUCTIVITY_TIPS \<mapsto> default_subject_config w PRODUCTIVITY_TIPS
                             system_prompt_PRODUCTIVITY_TIPS context_template_PRODUCTIVITY_TIPS]"

text \<open>
  The manager as \<^verbatim>\<open>AIConfigurationManager()\<close> builds it without a configuration
  file, and the service \<^verbatim>\<open>AIService()\<close> builds over it when the \<^verbatim>\<open>openai\<close>
  package can be imported.
\<close>

definition initial_manager :: "world \<Rightarrow> AIConfigurationManager" where
  "initial_manager w =
     \<lparr>subject_configs = create_default_configuration w,
      fallback_responses = load_fallback_responses (now w),
      connectivity_status = [OPENAI \<mapsto> True, ANTHROPIC \<mapsto> True, LOCAL \<mapsto> True],
      last_sync_attempt = [OPENAI \<mapsto> now w, ANTHROPIC \<mapsto> now w, LOCAL \<mapsto> now w],
      response_cache = Map.empty\<rparr>"

definition initial_service :: "world \<Rightarrow> AIService" where
  "initial_service w =
     \<lparr>providers = [OPENAI \<mapsto> \<lparr>config = default_openai w\<rparr>],
      config_manager = initial_manager w\<rparr>"

section \<open>A runtime and a world for the examples\<close>

text \<open>
  \<^verbatim>\<open>str(v)\<close> of a value, as \<^verbatim>\<open>str.format\<close> renders a field without a format
  specification.
\<close>

function digits :: "nat \<Rightarrow> string" where
  "digits n =
     (if n < 10 then [char_of (48 + n)] else digits (n div 10) @ [char_of (48 + n mod 10)])"
  by pat_completeness auto
termination
  by (relation "measure id") auto

definition py_str :: "pyval \<Rightarrow> string" where
  "py_str v =
     (case v of
        PNone \<Rightarrow> ''None''
      | PBool b \<Rightarrow> (if b then ''True'' else ''False'')
      | PInt i \<Rightarrow> (if i < 0 then ''-'' @ digits (nat (- i)) else digits (nat i))
      | PStr s \<Rightarrow> s)"

definition is_digit :: "char \<Rightarrow> bool" where
  "is_digit c = (c \<in> set ''0123456789'')"

definition prepend :: "string \<Rightarrow> exn + string \<Rightarrow> exn + string" where
  "prepend s r = (case r of Inl e \<Rightarrow> Inl e | Inr t \<Rightarrow> Inr (s @ t))"

text \<open>
  \<^verbatim>\<open>template.format(**kwargs)\<close>, read from left to right as Python does: doubled
  braces are literal braces, a single closing brace and an unclosed field raise
  \<^verbatim>\<open>ValueError\<close>, an empty or numeric field names a positional argument, of which
  there are none (\<^verbatim>\<open>IndexError\<close>), any other field is a key of \<open>kwargs\<close>
  (\<^verbatim>\<open>KeyError\<close> when absent). Fields with a conversion, a format specification,
  an attribute or an index are not modelled and answer \<open>Unmodelled\<close>.
\<close>

function py_format :: "string \<Rightarrow> pydict \<Rightarrow> exn + string" where
  "py_format [] kwargs = Inr []"
| "py_format (c # cs) kwargs =
     (if c = CHR ''{'' then
        (case cs of
           [] \<Rightarrow> Inl (ValueError ''Single { encountered in format string'')
         | c' # rest \<Rightarrow>
             if c' = CHR ''{'' then prepend ''{'' (py_format rest kwargs)
             else if dropWhile (\<lambda>x. x \<noteq> CHR ''}'') cs = []
             then Inl (ValueError ''expected } before end of string'')
             else if list_ex (\<lambda>x. x \<in> set ''.[!:{'') (takeWhile (\<lambda>x. x \<noteq> CHR ''}'') cs)
             then Inl (Unmodelled ''replacement field with conversion, format spec, attribute or index'')
             else if list_all is_digit (takeWhile (\<lambda>x. x \<noteq> CHR ''}'') cs)
             then (if length (takeWhile (\<lambda>x. x \<noteq> CHR ''}'') cs) \<le> 18
                   then Inl (IndexError ''Replacement index out of range for positional args tuple'')
                   else Inl (Unmodelled ''replacement index with more than 18 digits''))
             else
               (case map_of kwargs (takeWhile (\<lambda>x. x \<noteq> CHR ''}'') cs) of
                  None \<Rightarrow> Inl (KeyError (takeWhile (\<lambda>x. x \<noteq> CHR ''}'') cs))
                | Some v \<Rightarrow>
                    prepend (py_str v)
                      (py_format (tl (dropWhile (\<lambda>x. x \<noteq> CHR ''}'') cs)) kwargs)))
      else if c = CHR ''}'' then
        (case cs of
           [] \<Rightarrow> Inl (ValueError ''Single } encountered in format string'')
         | c' # rest \<Rightarrow>
             if c' = CHR ''}'' then prepend ''}'' (py_format rest kwargs)
             else Inl (ValueError ''Single } encountered in format string''))
      else prepend [c] (py_format cs kwargs))"
  by pat_completeness auto
termination
proof (relation "measure (\<lambda>(s, kwargs). length s)")
  show "wf (measure (\<lambda>(s :: string, kwargs :: pydict). length s))" by simp
next
  fix c :: char and cs :: string and kwargs :: pydict and c' :: char and rest :: string
  assume "cs = c' # rest"
  then show "((rest, kwargs), c # cs, kwargs) \<in> measure (\<lambda>(s, kwargs). length s)" by simp
next
  fix c :: char and cs :: string and kwargs :: pydict
  have "length (tl (dropWhile (\<lambda>x. x \<noteq> CHR ''}'') cs)) \<le> length cs"
    using length_dropWhile_le[of "\<lambda>x. x \<noteq> CHR ''}''" cs] by simp
  then show "((tl (dropWhile (\<lambda>x. x \<noteq> CHR ''}'') cs), kwargs), c # cs, kwargs)
        \<in> measure (\<lambda>(s, kwargs). length s)" by simp
next
  fix c :: char and cs :: string and kwargs :: pydict and c' :: char and rest :: string
  assume "cs = c' # rest"
  then show "((rest, kwargs), c # cs, kwargs) \<in> measure (\<lambda>(s, kwargs). length s)" by simp
next
  fix c :: char and cs :: string and kwargs :: pydict
  show "((cs, kwargs), c # cs, kwargs) \<in> measure (\<lambda>(s, kwargs). length s)" by simp
qed

text \<open>
  The rest of the example runtime is exact on plain data (strings of printable
  ASCII characters without quotes and backslashes): \<^verbatim>\<open>str(dict)\<close>, and
  \<^verbatim>\<open>json.dumps(dict, sort_keys=True)\<close> with the keys sorted by insertion.
\<close>

definition py_repr :: "pyval \<Rightarrow> string" where
  "py_repr v = (case v of PStr s \<Rightarrow> [CHR 0x27] @ s @ [CHR 0x27] | _ \<Rightarrow> py_str v)"

fun join :: "string \<Rightarrow> string list \<Rightarrow> string" where
  "join sep [] = []"
| "join sep [x] = x"
| "join sep (x # y # ys) = x @ sep @ join sep (y # ys)"

definition plain_dict_str :: "pydict \<Rightarrow> string" where
  "plain_dict_str d =
     ''{'' @ join '', '' (map (\<lambda>(k, v). py_repr (PStr k) @ '': '' @ py_repr v) d) @ ''}''"

fun str_le :: "string \<Rightarrow> string \<Rightarrow> bool" where
  "str_le [] t = True"
| "str_le (x # xs) [] = False"
| "str_le (x # xs) (y # ys) =
     ((of_char x :: nat) < of_char y \<or> (x = y \<and> str_le xs ys))"

fun insert_item :: "string \<times> pyval \<Rightarrow> pydict \<Rightarrow> pydict" where
  "insert_item kv [] = [kv]"
| "insert_item kv (x # xs) =
     (if str_le (fst kv) (fst x) then kv # x # xs else x # insert_item kv xs)"

definition sort_items :: "pydict \<Rightarrow> pydict" where
  "sort_items d = foldr insert_item d []"

definition json_value :: "pyval \<Rightarrow> string" where
  "json_value v =
     (case v of
        PNone \<Rightarrow> ''null''
      | PBool b \<Rightarrow> (if b then ''true'' else ''false'')
      | PStr s \<Rightarrow> [CHR 0x22] @ s @ [CHR 0x22]
      | _ \<Rightarrow> py_str v)"

definition plain_json_dumps :: "pydict \<Rightarrow> string" where
  "plain_json_dumps d =
     ''{'' @ join '', '' (map (\<lambda>(k, v). json_value (PStr k) @ '': '' @ json_value v)
                            (sort_items d)) @ ''}''"

definition ascii_lower :: "string \<Rightarrow> string" where
  "ascii_lower s =
     map (\<lambda>c. if c \<in> set ''ABCDEFGHIJKLMNOPQRSTUVWXYZ''
               then char_of ((of_char c :: nat) + 32) else c) s"

definition ascii_space :: "char \<Rightarrow> bool" where
  "ascii_space c = (c \<in> set [CHR 0x20, CHR 0x09, CHR 0x0A, CHR 0x0B, CHR 0x0C, CHR 0x0D])"

definition ascii_strip :: "string \<Rightarrow> string" where
  "ascii_strip s = rev (dropWhile ascii_space (rev (dropWhile ascii_space s)))"

text \<open>
  The digest and the rendering of an instant are not modelled; the example runtime
  puts the identity and the whole seconds in their place.
\<close>

definition example_rt :: pyrt where
  "example_rt =
     \<lparr>md5_hexdigest = (\<lambda>s. s),
      json_dumps = plain_json_dumps,
      dict_str = plain_dict_str,
      str_format = py_format,
      str_lower = ascii_lower,
      str_strip = ascii_strip,
      isoformat = (\<lambda>t. digits (nat \<lfloor>t\<rfloor>))\<rparr>"

definition empty_dict :: response_dict where
  "empty_dict =
     \<lparr>d_text = [], d_animation_type = [], d_mood = [], d_source = [],
      d_metadata = [], d_timestamp = []\<rparr>"

text \<open>
  A world at instant \<open>t\<close> with both OpenAI variables set, in which the completion
  calls answer \<open>answers\<close> and \<^verbatim>\<open>random()\<close> always returns \<open>u\<close>.
\<close>

definition example_world :: "time \<Rightarrow> (nat \<Rightarrow> api_outcome) \<Rightarrow> rat \<Rightarrow> world" where
  "example_world t answers u =
     \<lparr>now = t,
      getenv = [''OPENAI_API_KEY'' \<mapsto> ''sk-example'', ''OPENAI_API_BASE'' \<mapsto> ''https://api.openai.com/v1''],
      api_answers = answers, api_calls = 0,
      random_values = (\<lambda>k. u), random_calls = 0,
      heap = (\<lambda>r. empty_dict), next_ref = 0,
      trace = []\<rparr>"

definition offline_world :: world where
  "offline_world = example_world 0 (\<lambda>k. ApiFailure ''AI service timeout'') (1 / 2)"

text \<open>
  A world in which every completion call succeeds, a context for task creation, and
  the first call of the orchestrator on the startup state in that world.
\<close>

definition online_world :: world where
  "online_world =
     example_world 0 (\<lambda>k. Completion '' Amazing start, keep going!  '' (Some 42)) (1 / 2)"

definition example_context :: pydict where
  "example_context =
     [(''task_title'', PStr ''Write report''), (''priority'', PInt 3), (''difficulty'', PInt 2)]"

definition first_call :: "(exn + AIResponse) \<times> AIService \<times> world" where
  "first_call =
     generate_response example_rt (initial_service online_world) online_world
       TASK_CREATION (Some example_context) False"

definition first_response :: AIResponse where
  "first_response =
     \<lparr>resp_text = ''Amazing start, keep going!'', animation_type = ''celebration_bounce'',
      mood = ''excited'', source = ''ai'',
      metadata = [(''model'', PStr ''gpt-3.5-turbo''), (''provider'', PStr ''openai''),
                  (''tokens_used'', PInt 42)],
      timestamp = 0\<rparr>"


text \<open>The body \<^verbatim>\<open>{"primary_model": {"temperature": 5.0}}\<close> of an update.\<close>

definition temperature_request :: update_request where
  "temperature_request =
     \<lparr>req_primary_model =
        Some \<lparr>u_provider = None, u_model_name = None, u_api_key = None, u_api_base = None,
              u_max_tokens = None, u_temperature = Some 5, u_timeout = None\<rparr>,
      req_system_prompt = None, req_context_template = None,
      req_cache_responses = None, req_cache_duration_hours = None\<rparr>"

text \<open>
  A replacement field that \<open>py_format\<close> looks up as a key: not empty, not a
  number, without the characters of conversions, specifications, attributes,
  indices and braces.
\<close>

definition plain_field :: "string \<Rightarrow> bool" where
  "plain_field k =
     (k \<noteq> [] \<and> \<not> list_ex (\<lambda>x. x \<in> set ''.[!:{}'') k \<and> \<not> list_all is_digit k)"

text \<open>A context for task creation that lacks the priority and the difficulty.\<close>

definition partial_context :: pydict where
  "partial_context = [(''task_title'', PStr ''Write report'')]"

section \<open>Static fallback selection\<close>

lemma bisect_result:
  "lo \<le> hi \<Longrightarrow> hi < length a \<Longrightarrow> \<exists>i. bisect a x lo hi = Inr i \<and> lo \<le> i \<and> i \<le> hi"
proof (induction a x lo hi rule: bisect.induct)
  case (1 a x lo hi)
  show ?case
  proof (cases "lo < hi")
    case False
    then show ?thesis using "1.prems" by (subst bisect.simps) simp
  next
    case True
    define mid where "mid = (lo + hi) div 2"
    have m: "lo \<le> mid" "mid < hi" "mid < length a"
      using True "1.prems" by (simp_all add: mid_def)
    show ?thesis
    proof (cases "x < a ! mid")
      case xlt: True
      have "\<exists>i. bisect a x lo mid = Inr i \<and> lo \<le> i \<and> i \<le> mid"
        using "1.IH"(1)[OF True mid_def m(3) xlt] m by simp
      moreover have "bisect a x lo hi = bisect a x lo mid"
        using True m xlt by (subst bisect.simps) (simp add: mid_def Let_def)
      ultimately show ?thesis using m by auto
    next
      case xge: False
      have "\<exists>i. bisect a x (mid + 1) hi = Inr i \<and> mid + 1 \<le> i \<and> i \<le> hi"
        using "1.IH"(2)[OF True mid_def m(3) xge] m "1.prems" by simp
      moreover have "bisect a x lo hi = bisect a x (mid + 1) hi"
        using True m xge by (subst bisect.simps) (simp add: mid_def Let_def)
      ultimately show ?thesis using m by auto
    qed
  qed
qed

lemma length_accumulate_from: "length (accumulate_from acc ws) = length ws"
  by (induction ws arbitrary: acc) auto

lemma last_accumulate_from:
  "ws \<noteq> [] \<Longrightarrow> last (accumulate_from acc ws) = acc + sum_list ws"
proof (induction ws arbitrary: acc)
  case Nil
  then show ?case by simp
next
  case (Cons x xs)
  show ?case
  proof (cases xs)
    case Nil
    then show ?thesis by simp
  next
    case (Cons y ys)
    then have "xs \<noteq> []" by simp
    from Cons.IH[OF this, of "acc + x"] Cons show ?thesis by simp
  qed
qed

lemma random_choices_member:
  assumes ne: "population \<noteq> []"
    and len: "length weights = length population"
    and pos: "0 < sum_list weights"
  shows "\<exists>x. random_choices w population weights = (Inr x, w\<lparr>random_calls := Suc (random_calls w)\<rparr>)
           \<and> x \<in> set population"
proof -
  let ?cum = "accumulate weights"
  let ?n = "length population"
  have wne: "weights \<noteq> []" using ne len by auto
  have l: "length ?cum = ?n" by (simp add: accumulate_def length_accumulate_from len)
  have cne: "?cum \<noteq> []" using l ne by auto
  have tot: "last ?cum = sum_list weights"
    using last_accumulate_from[OF wne, of 0] by (simp add: accumulate_def)
  have npos: "0 < ?n" using ne by simp
  obtain i where i: "bisect (map of_int ?cum) (random_values w (random_calls w) * of_int (sum_list weights)) 0 (?n - 1) = Inr i"
    and ile: "i \<le> ?n - 1"
    using bisect_result[of 0 "?n - 1" "map of_int ?cum"] l npos by fastforce
  have "i < ?n" using ile npos by linarith
  then have "population ! i \<in> set population" by simp
  moreover have "random_choices w population weights
      = (Inr (population ! i), w\<lparr>random_calls := Suc (random_calls w)\<rparr>)"
    using l cne tot pos i \<open>i < ?n\<close>
    by (simp add: random_choices_def Let_def)
  ultimately show ?thesis by blast
qed

lemma sum_list_weights_ge_length:
  "\<forall>r \<in> set xs. 1 \<le> weight r \<Longrightarrow> int (length xs) \<le> sum_list (map weight xs)"
  by (induction xs) auto

lemma sum_list_weights_pos:
  assumes "xs \<noteq> []" and "\<forall>r \<in> set xs. 1 \<le> weight r"
  shows "0 < sum_list (map weight xs)"
proof -
  have "0 < int (length xs)" using assms(1) by simp
  then show ?thesis using sum_list_weights_ge_length[OF assms(2)] by linarith
qed

lemma fallback_candidates_nonempty:
  "rs \<noteq> [] \<Longrightarrow> fallback_candidates rs ct m \<noteq> []"
  by (simp add: fallback_candidates_def Let_def)

lemma fallback_candidates_subset:
  "set (fallback_candidates rs ct m) \<subseteq> set rs"
  by (auto simp: fallback_candidates_def Let_def)

lemma fallback_candidates_stages:
  "fallback_candidates rs ct m =
     (let stage1 = (if \<exists>r \<in> set rs. py_eq (fb_context_type r) ct
                    then filter (\<lambda>r. py_eq (fb_context_type r) ct) rs else rs)
      in if truthy m \<and> (\<exists>r \<in> set stage1. py_eq (PStr (fb_mood r)) m)
         then filter (\<lambda>r. py_eq (PStr (fb_mood r)) m) stage1 else stage1)"
  by (auto simp: fallback_candidates_def Let_def filter_empty_conv)

lemma get_fallback_response_selected:
  assumes "\<forall>r \<in> set (stored_responses mgr s). 1 \<le> weight r"
  shows "\<exists>r w'. get_fallback_response mgr w s ct m = (Inr r, w')
           \<and> (stored_responses mgr s = [] \<longrightarrow> r = generic_fallback w s ct \<and> w' = w)
           \<and> (stored_responses mgr s \<noteq> [] \<longrightarrow>
                r \<in> set (fallback_candidates (stored_responses mgr s) ct m))"
proof (cases "stored_responses mgr s = []")
  case True
  then show ?thesis by (simp add: get_fallback_response_def)
next
  case False
  let ?c = "fallback_candidates (stored_responses mgr s) ct m"
  have ne: "?c \<noteq> []" using False by (rule fallback_candidates_nonempty)
  have "\<forall>r \<in> set ?c. 1 \<le> weight r"
    using assms fallback_candidates_subset[of "stored_responses mgr s" ct m] by blast
  then have pos: "0 < sum_list (map weight ?c)" using ne by (simp add: sum_list_weights_pos)
  from random_choices_member[OF ne _ pos, of w]
  obtain x where "random_choices w ?c (map weight ?c)
                    = (Inr x, w\<lparr>random_calls := Suc (random_calls w)\<rparr>)"
    and "x \<in> set ?c" by auto
  then show ?thesis using False by (simp add: get_fallback_response_def Let_def)
qed

text \<open>
  C8. Whatever the subject, the context type and the mood, the fallback lookup of a
  store whose weights are at least 1 returns a response: the generic one, made on
  the spot, for a subject without stored responses; otherwise one of the
  candidates, which are never empty. The candidates are the stored responses of
  the subject, filtered by context type unless none matches, then filtered by mood
  unless the mood is empty or none of them matches.
\<close>

theorem fallback_lookup_nonempty:
  assumes "\<forall>r \<in> set (stored_responses mgr s). 1 \<le> weight r"
  shows "(\<exists>r w'. get_fallback_response mgr w s ct m = (Inr r, w')
            \<and> (stored_responses mgr s = [] \<longrightarrow> r = generic_fallback w s ct)
            \<and> (stored_responses mgr s \<noteq> [] \<longrightarrow>
                 r \<in> set (fallback_candidates (stored_responses mgr s) ct m)))
         \<and> (stored_responses mgr s \<noteq> [] \<longrightarrow>
               fallback_candidates (stored_responses mgr s) ct m \<noteq> [])
         \<and> fallback_candidates (stored_responses mgr s) ct m =
             (let stage1 = (if \<exists>r \<in> set (stored_responses mgr s). py_eq (fb_context_type r) ct
                            then filter (\<lambda>r. py_eq (fb_context_type r) ct) (stored_responses mgr s)
                            else stored_responses mgr s)
              in if truthy m \<and> (\<exists>r \<in> set stage1. py_eq (PStr (fb_mood r)) m)
                 then filter (\<lambda>r. py_eq (PStr (fb_mood r)) m) stage1 else stage1)"
proof -
  from get_fallback_response_selected[OF assms, of w ct m]
  have "\<exists>r w'. get_fallback_response mgr w s ct m = (Inr r, w')
            \<and> (stored_responses mgr s = [] \<longrightarrow> r = generic_fallback w s ct)
            \<and> (stored_responses mgr s \<noteq> [] \<longrightarrow>
                 r \<in> set (fallback_candidates (stored_responses mgr s) ct m))"
    by blast
  moreover have "stored_responses mgr s \<noteq> [] \<longrightarrow>
      fallback_candidates (stored_responses mgr s) ct m \<noteq> []"
    by (simp add: fallback_candidates_nonempty)
  ultimately show ?thesis
    using fallback_candidates_stages[of "stored_responses mgr s" ct m] by blast
qed

lemma stored_responses_initial_TASK_CREATION:
  "stored_responses (initial_manager w) TASK_CREATION = fallbacks_TASK_CREATION (now w)"
  by (simp add: stored_responses_def initial_manager_def load_fallback_responses_def)

lemma stored_responses_initial_GOAL_SETTING:
  "stored_responses (initial_manager w) GOAL_SETTING = []"
  by (simp add: stored_responses_def initial_manager_def load_fallback_responses_def)

theorem fallback_lookup_nonempty_witness:
  "map weight (stored_responses (initial_manager offline_world) TASK_CREATION) = [3, 2, 2]
   \<and> (\<exists>r w'. get_fallback_response (initial_manager offline_world) offline_world TASK_CREATION
                 (PStr ''deadline'') (PStr ''supportive'') = (Inr r, w')
         \<and> r \<in> set (fallback_candidates (fallbacks_TASK_CREATION 0)
                        (PStr ''deadline'') (PStr ''supportive'')))
   \<and> fallback_candidates (fallbacks_TASK_CREATION 0) (PStr ''deadline'') (PStr ''supportive'')
       = [fallbacks_TASK_CREATION 0 ! 2]"
proof -
  have t: "now offline_world = 0" by (simp add: offline_world_def example_world_def)
  have h: "\<forall>r \<in> set (stored_responses (initial_manager offline_world) TASK_CREATION). 1 \<le> weight r"
    by (simp add: stored_responses_initial_TASK_CREATION fallbacks_TASK_CREATION_def)
  have c: "fallback_candidates (fallbacks_TASK_CREATION 0) (PStr ''deadline'') (PStr ''supportive'')
       = [fallbacks_TASK_CREATION 0 ! 2]"
    by (simp add: fallback_candidates_def fallbacks_TASK_CREATION_def)
  have ne: "stored_responses (initial_manager offline_world) TASK_CREATION \<noteq> []"
    by (simp add: stored_responses_initial_TASK_CREATION fallbacks_TASK_CREATION_def)
  note th = fallback_lookup_nonempty[OF h, of offline_world "PStr ''deadline''" "PStr ''supportive''",
                THEN conjunct1]
  have "\<exists>r w'. get_fallback_response (initial_manager offline_world) offline_world TASK_CREATION
                 (PStr ''deadline'') (PStr ''supportive'') = (Inr r, w')
         \<and> r \<in> set (fallback_candidates
                        (stored_responses (initial_manager offline_world) TASK_CREATION)
                        (PStr ''deadline'') (PStr ''supportive''))"
    using th ne by blast
  then have "\<exists>r w'. get_fallback_response (initial_manager offline_world) offline_world TASK_CREATION
                 (PStr ''deadline'') (PStr ''supportive'') = (Inr r, w')
         \<and> r \<in> set (fallback_candidates (fallbacks_TASK_CREATION 0)
                        (PStr ''deadline'') (PStr ''supportive''))"
    by (simp only: stored_responses_initial_TASK_CREATION t)
  moreover have "map weight (stored_responses (initial_manager offline_world) TASK_CREATION) = [3, 2, 2]"
    by (simp add: stored_responses_initial_TASK_CREATION fallbacks_TASK_CREATION_def)
  ultimately show ?thesis using c by blast
qed

section \<open>Response cache\<close>

text \<open>
  C9. A cache entry whose expiry instant has been reached is not returned by a
  read: the read answers \<^verbatim>\<open>None\<close> and deletes the entry, and every later read of
  that key, at whatever instant, is a miss that leaves the manager as it is.
\<close>

theorem expired_entry_purged_on_read:
  "response_cache mgr k = Some e \<Longrightarrow> expiry e \<le> now w \<Longrightarrow>
     get_cached_response mgr w k
       = (None, mgr\<lparr>response_cache := (response_cache mgr)(k := None)\<rparr>)
     \<and> (\<forall>w'. get_cached_response (snd (get_cached_response mgr w k)) w' k
              = (None, snd (get_cached_response mgr w k)))"
  by (simp add: get_cached_response_def)

theorem expired_entry_purged_on_read_witness:
  "response_cache (cache_response (initial_manager offline_world) offline_world ''key'' 0 24) ''key''
     = Some \<lparr>response = 0, expiry = 86400\<rparr>
   \<and> expiry \<lparr>response = 0, expiry = 86400\<rparr> \<le> now (offline_world\<lparr>now := 86400\<rparr>)
   \<and> fst (get_cached_response
            (cache_response (initial_manager offline_world) offline_world ''key'' 0 24)
            (offline_world\<lparr>now := 86400\<rparr>) ''key'') = None
   \<and> response_cache (snd (get_cached_response
            (cache_response (initial_manager offline_world) offline_world ''key'' 0 24)
            (offline_world\<lparr>now := 86400\<rparr>) ''key'')) ''key'' = None"
proof -
  let ?m = "cache_response (initial_manager offline_world) offline_world ''key'' 0 24"
  let ?w = "offline_world\<lparr>now := 86400\<rparr>"
  have a: "response_cache ?m ''key'' = Some \<lparr>response = 0, expiry = 86400\<rparr>"
    by (simp add: cache_response_def timedelta_hours_def offline_world_def example_world_def)
  have b: "expiry \<lparr>response = 0, expiry = 86400\<rparr> \<le> now ?w" by simp
  from expired_entry_purged_on_read[OF a b] show ?thesis using a b by simp
qed

section \<open>The orchestrator on a cache hit\<close>

lemma example_rt_fields:
  "md5_hexdigest example_rt = (\<lambda>s. s)" "json_dumps example_rt = plain_json_dumps"
  "dict_str example_rt = plain_dict_str" "str_format example_rt = py_format"
  "str_lower example_rt = ascii_lower" "str_strip example_rt = ascii_strip"
  by (simp_all add: example_rt_def)

lemma format_example:
  "py_format context_template_TASK_CREATION example_context
     = Inr ''User is creating a task: Write report with priority 3 and difficulty 2''"
  by code_simp

lemma strip_example: "ascii_strip '' Amazing start, keep going!  '' = ''Amazing start, keep going!''"
  by code_simp

lemma parse_example:
  "parse_response_metadata example_rt ''Amazing start, keep going!'' = (''excited'', ''celebration_bounce'')"
  by code_simp

lemma initial_config_TASK_CREATION:
  "get_subject_config (initial_manager w) TASK_CREATION
     = Some (default_subject_config w TASK_CREATION system_prompt_TASK_CREATION
               context_template_TASK_CREATION)"
  by (simp add: get_subject_config_def initial_manager_def create_default_configuration_def)

lemma template_nonempty: "context_template_TASK_CREATION \<noteq> []"
  by (simp add: context_template_TASK_CREATION_def)

lemma first_call_eval:
  "first_call =
     (Inr first_response,
      (initial_service online_world)\<lparr>config_manager :=
         (initial_manager online_world)\<lparr>response_cache :=
            [generate_cache_key example_rt TASK_CREATION example_context
               \<mapsto> \<lparr>response = 0, expiry = 86400\<rparr>]\<rparr>\<rparr>,
      online_world\<lparr>api_calls := 1,
                   heap := (heap online_world)(0 := to_dict example_rt first_response),
                   next_ref := 1,
                   trace := [EvConnectivity OPENAI,
                             EvGenerate (default_openai online_world) system_prompt_TASK_CREATION
                               ''User is creating a task: Write report with priority 3 and difficulty 2'']\<rparr>)"
proof -
  have w: "now online_world = 0" "api_calls online_world = 0" "next_ref online_world = 0"
    "trace online_world = []"
    "api_answers online_world = (\<lambda>k. Completion '' Amazing start, keep going!  '' (Some 42))"
    by (simp_all add: online_world_def example_world_def)
  have m: "response_cache (initial_manager online_world) = Map.empty"
    "last_sync_attempt (initial_manager online_world) OPENAI = Some 0"
    "connectivity_status (initial_manager online_world) OPENAI = Some True"
    by (simp_all add: initial_manager_def w)
  have s: "config_manager (initial_service online_world) = initial_manager online_world"
    "providers (initial_service online_world) OPENAI = Some \<lparr>config = default_openai online_world\<rparr>"
    by (simp_all add: initial_service_def)
  have c: "cache_responses (default_subject_config w TASK_CREATION a b)"
    "cache_duration_hours (default_subject_config w TASK_CREATION a b) = 24"
    "primary_model (default_subject_config w TASK_CREATION a b) = default_openai w"
    "system_prompt (default_subject_config w TASK_CREATION a b) = a"
    "context_template (default_subject_config w TASK_CREATION a b) = b"
    "subject (default_subject_config w TASK_CREATION a b) = TASK_CREATION" for w a b
    by (simp_all add: default_subject_config_def)
  have o: "provider (default_openai w) = OPENAI" "retry_attempts (default_openai w) = 3"
    "retry_delay (default_openai w) = 1" "model_name (default_openai w) = ''gpt-3.5-turbo''" for w
    by (simp_all add: default_openai_def)
  have n3: "(3::nat) = Suc (Suc (Suc 0))" by simp
  show ?thesis
    unfolding first_call_def generate_response_def
    by (simp add: s initial_config_TASK_CREATION c o m w get_cached_response_def try_primary_def
          check_connectivity_def log_event_def timedelta_minutes_def generate_ai_response_def
          format_user_prompt_def template_nonempty example_rt_fields format_example n3
          OpenAIProvider_generate_response_def strip_example parse_example alloc_def
          cache_response_def timedelta_hours_def first_response_def Let_def)
qed


lemma generate_response_cache_hit:
  assumes "get_subject_config (config_manager svc) s = Some cfg" and "cache_responses cfg"
    and "response_cache (config_manager svc)
           (generate_cache_key rt s (case carg of None \<Rightarrow> [] | Some c \<Rightarrow> c)) = Some e"
    and "now w < expiry e"
  shows "generate_response rt svc w s carg False
           = (Inl (TypeError ''__init__() got an unexpected keyword argument timestamp''), svc,
              w\<lparr>heap := (heap w)(response e := (heap w (response e))\<lparr>d_source := ''cache''\<rparr>)\<rparr>)"
  using assms
  by (simp add: generate_response_def get_cached_response_def AIResponse_kwargs_def
        init_params_def to_dict_keys_def Let_def)

lemma first_call_state:
  "get_subject_config (config_manager (fst (snd first_call))) TASK_CREATION
     = Some (default_subject_config online_world TASK_CREATION system_prompt_TASK_CREATION
               context_template_TASK_CREATION)"
  "response_cache (config_manager (fst (snd first_call)))
     (generate_cache_key example_rt TASK_CREATION example_context)
     = Some \<lparr>response = 0, expiry = 86400\<rparr>"
  "heap (snd (snd first_call)) 0 = to_dict example_rt first_response"
  "now (snd (snd first_call)) = 0"
  by (simp_all add: first_call_eval get_subject_config_def initial_service_def initial_manager_def
        create_default_configuration_def online_world_def example_world_def)

text \<open>
  C1. The orchestrator does raise: when a call without \<^verbatim>\<open>force_ai\<close> finds an entry
  of the cache that has not expired, \<^verbatim>\<open>AIResponse(**cached_response)\<close> is given the
  key \<^verbatim>\<open>timestamp\<close> that \<^verbatim>\<open>to_dict\<close> wrote, and the \<^verbatim>\<open>TypeError\<close> leaves
  \<^verbatim>\<open>generate_response\<close>, since the line stands before the \<^verbatim>\<open>try\<close> statement.
\<close>

theorem generate_response_raises_on_cache_hit:
  assumes "get_subject_config (config_manager svc) s = Some cfg" and "cache_responses cfg"
    and "response_cache (config_manager svc)
           (generate_cache_key rt s (case carg of None \<Rightarrow> [] | Some c \<Rightarrow> c)) = Some e"
    and "now w < expiry e"
  shows "fst (generate_response rt svc w s carg False)
           = Inl (TypeError ''__init__() got an unexpected keyword argument timestamp'')"
  using generate_response_cache_hit[OF assms] by simp

theorem generate_response_raises_on_cache_hit_witness:
  "get_subject_config (config_manager (fst (snd first_call))) TASK_CREATION
     = Some (default_subject_config online_world TASK_CREATION system_prompt_TASK_CREATION
               context_template_TASK_CREATION)
   \<and> cache_responses (default_subject_config online_world TASK_CREATION
         system_prompt_TASK_CREATION context_template_TASK_CREATION)
   \<and> response_cache (config_manager (fst (snd first_call)))
        (generate_cache_key example_rt TASK_CREATION example_context)
        = Some \<lparr>response = 0, expiry = 86400\<rparr>
   \<and> now (snd (snd first_call)) < expiry \<lparr>response = 0, expiry = 86400\<rparr>
   \<and> fst (generate_response example_rt (fst (snd first_call)) (snd (snd first_call))
             TASK_CREATION (Some example_context) False)
        = Inl (TypeError ''__init__() got an unexpected keyword argument timestamp'')"
proof -
  have a: "cache_responses (default_subject_config online_world TASK_CREATION
         system_prompt_TASK_CREATION context_template_TASK_CREATION)"
    by (simp add: default_subject_config_def)
  have b: "response_cache (config_manager (fst (snd first_call)))
        (generate_cache_key example_rt TASK_CREATION
           (case Some example_context of None \<Rightarrow> [] | Some c \<Rightarrow> c))
        = Some \<lparr>response = 0, expiry = 86400\<rparr>"
    by (simp add: first_call_state)
  have c: "now (snd (snd first_call)) < expiry \<lparr>response = 0, expiry = 86400\<rparr>"
    by (simp add: first_call_state)
  from generate_response_raises_on_cache_hit[OF first_call_state(1) a b c]
  show ?thesis using a c by (simp add: first_call_state)
qed

text \<open>
  C2. The first call succeeds on the primary model and caches its response; the
  same call one hour later, within the 24 hours of the entry, does not return the
  cached text with source \<^verbatim>\<open>cache\<close>: it raises \<^verbatim>\<open>TypeError\<close>.
\<close>

theorem second_call_within_ttl_raises:
  "fst first_call = Inr first_response
   \<and> source first_response = ''ai''
   \<and> fst (generate_response example_rt (fst (snd first_call))
             ((snd (snd first_call))\<lparr>now := 3600\<rparr>)
             TASK_CREATION (Some example_context) False)
        = Inl (TypeError ''__init__() got an unexpected keyword argument timestamp'')"
proof -
  have a: "cache_responses (default_subject_config online_world TASK_CREATION
         system_prompt_TASK_CREATION context_template_TASK_CREATION)"
    by (simp add: default_subject_config_def)
  have b: "response_cache (config_manager (fst (snd first_call)))
        (generate_cache_key example_rt TASK_CREATION
           (case Some example_context of None \<Rightarrow> [] | Some c \<Rightarrow> c))
        = Some \<lparr>response = 0, expiry = 86400\<rparr>"
    by (simp add: first_call_state)
  have c: "now ((snd (snd first_call))\<lparr>now := 3600\<rparr>) < expiry \<lparr>response = 0, expiry = 86400\<rparr>"
    by simp
  from generate_response_cache_hit[OF first_call_state(1) a b c]
  show ?thesis by (simp add: first_call_eval first_response_def)
qed

text \<open>
  C10. A cache hit writes to the cache: the dictionary the entry refers to is the
  object the orchestrator sets \<^verbatim>\<open>source\<close> on, so after the call the entry is
  still stored and its dictionary carries the source \<^verbatim>\<open>cache\<close>; its other keys
  and all other dictionaries are as before.
\<close>

theorem cache_hit_mutates_stored_entry:
  assumes "get_subject_config (config_manager svc) s = Some cfg" and "cache_responses cfg"
    and "response_cache (config_manager svc)
           (generate_cache_key rt s (case carg of None \<Rightarrow> [] | Some c \<Rightarrow> c)) = Some e"
    and "now w < expiry e"
  shows "response_cache (config_manager (fst (snd (generate_response rt svc w s carg False))))
           (generate_cache_key rt s (case carg of None \<Rightarrow> [] | Some c \<Rightarrow> c)) = Some e
         \<and> heap (snd (snd (generate_response rt svc w s carg False))) (response e)
             = (heap w (response e))\<lparr>d_source := ''cache''\<rparr>
         \<and> (\<forall>r. r \<noteq> response e \<longrightarrow>
               heap (snd (snd (generate_response rt svc w s carg False))) r = heap w r)"
  using generate_response_cache_hit[OF assms] assms(3) by simp

theorem cache_hit_mutates_stored_entry_witness:
  "d_source (heap (snd (snd first_call)) 0) = ''ai''
   \<and> response_cache (config_manager (fst (snd first_call)))
        (generate_cache_key example_rt TASK_CREATION example_context)
        = Some \<lparr>response = 0, expiry = 86400\<rparr>
   \<and> now (snd (snd first_call)) < 86400
   \<and> d_source (heap (snd (snd (generate_response example_rt (fst (snd first_call))
                                  (snd (snd first_call)) TASK_CREATION (Some example_context) False)))
                  0) = ''cache''
   \<and> d_text (heap (snd (snd (generate_response example_rt (fst (snd first_call))
                                (snd (snd first_call)) TASK_CREATION (Some example_context) False)))
                0) = ''Amazing start, keep going!''"
proof -
  have a: "cache_responses (default_subject_config online_world TASK_CREATION
         system_prompt_TASK_CREATION context_template_TASK_CREATION)"
    by (simp add: default_subject_config_def)
  have b: "response_cache (config_manager (fst (snd first_call)))
        (generate_cache_key example_rt TASK_CREATION
           (case Some example_context of None \<Rightarrow> [] | Some c \<Rightarrow> c))
        = Some \<lparr>response = 0, expiry = 86400\<rparr>"
    by (simp add: first_call_state)
  have c: "now (snd (snd first_call)) < expiry \<lparr>response = 0, expiry = 86400\<rparr>"
    by (simp add: first_call_state)
  from cache_hit_mutates_stored_entry[OF first_call_state(1) a b c]
  have "heap (snd (snd (generate_response example_rt (fst (snd first_call))
                 (snd (snd first_call)) TASK_CREATION (Some example_context) False))) 0
          = (heap (snd (snd first_call)) 0)\<lparr>d_source := ''cache''\<rparr>"
    by simp
  then show ?thesis
    by (simp add: first_call_state to_dict_def first_response_def)
qed

section \<open>An unconfigured subject\<close>

lemma get_static_response_ok:
  assumes "\<forall>r \<in> set (stored_responses mgr s). 1 \<le> weight r"
  shows "\<exists>fb w'. get_fallback_response mgr w s (dict_get ctx ''context_type'' (PStr ''general''))
                     (dict_get ctx ''mood'' (PStr ''cheerful'')) = (Inr fb, w')
           \<and> get_static_response mgr w s ctx
               = (Inr \<lparr>resp_text = response_text fb, animation_type = fb_animation_type fb,
                       mood = fb_mood fb, source = ''fallback'',
                       metadata = [(''fallback_reason'', PStr ''ai_unavailable''),
                                   (''context_type'', dict_get ctx ''context_type'' (PStr ''general''))],
                       timestamp = now w'\<rparr>, w')"
proof -
  from get_fallback_response_selected[OF assms, of w "dict_get ctx ''context_type'' (PStr ''general'')"
          "dict_get ctx ''mood'' (PStr ''cheerful'')"]
  obtain fb w' where "get_fallback_response mgr w s (dict_get ctx ''context_type'' (PStr ''general''))
                     (dict_get ctx ''mood'' (PStr ''cheerful'')) = (Inr fb, w')" by blast
  then show ?thesis by (simp add: get_static_response_def Let_def)
qed

lemma initial_config_GOAL_SETTING:
  "get_subject_config (initial_manager w) GOAL_SETTING = None"
  by (simp add: get_subject_config_def initial_manager_def create_default_configuration_def)


text \<open>
  C3 (as amended). For a subject without configuration, and stored weights of at
  least 1, the orchestrator returns the static response that the fallback lookup
  selects for the context type of the context (default \<^verbatim>\<open>general\<close>) and its mood
  (default \<^verbatim>\<open>cheerful\<close>), with source \<^verbatim>\<open>fallback\<close>; the metadata are
  \<^verbatim>\<open>fallback_reason = ai_unavailable\<close> and the context type, as on every other
  static fallback. The service is left as it was.
\<close>

theorem unconfigured_subject_static_fallback:
  assumes "get_subject_config (config_manager svc) s = None"
    and "\<forall>r \<in> set (stored_responses (config_manager svc) s). 1 \<le> weight r"
  shows "\<exists>r fb w'.
           generate_response rt svc w s carg force_ai = (Inr r, svc, w')
           \<and> get_fallback_response (config_manager svc) w s
                (dict_get (case carg of None \<Rightarrow> [] | Some c \<Rightarrow> c) ''context_type'' (PStr ''general''))
                (dict_get (case carg of None \<Rightarrow> [] | Some c \<Rightarrow> c) ''mood'' (PStr ''cheerful''))
               = (Inr fb, w')
           \<and> resp_text r = response_text fb \<and> mood r = fb_mood fb
           \<and> animation_type r = fb_animation_type fb
           \<and> source r = ''fallback''
           \<and> metadata r =
               [(''fallback_reason'', PStr ''ai_unavailable''),
                (''context_type'',
                 dict_get (case carg of None \<Rightarrow> [] | Some c \<Rightarrow> c) ''context_type'' (PStr ''general''))]"
proof -
  from get_static_response_ok[OF assms(2), of w "case carg of None \<Rightarrow> [] | Some c \<Rightarrow> c"]
  obtain fb w' where
    "get_fallback_response (config_manager svc) w s
                (dict_get (case carg of None \<Rightarrow> [] | Some c \<Rightarrow> c) ''context_type'' (PStr ''general''))
                (dict_get (case carg of None \<Rightarrow> [] | Some c \<Rightarrow> c) ''mood'' (PStr ''cheerful''))
               = (Inr fb, w')"
    and "get_static_response (config_manager svc) w s (case carg of None \<Rightarrow> [] | Some c \<Rightarrow> c)
               = (Inr \<lparr>resp_text = response_text fb, animation_type = fb_animation_type fb,
                       mood = fb_mood fb, source = ''fallback'',
                       metadata = [(''fallback_reason'', PStr ''ai_unavailable''),
                                   (''context_type'', dict_get (case carg of None \<Rightarrow> [] | Some c \<Rightarrow> c) ''context_type'' (PStr ''general''))],
                       timestamp = now w'\<rparr>, w')"
    by blast
  then show ?thesis using assms(1)
    by (simp add: generate_response_def Let_def)
qed


theorem unconfigured_subject_static_fallback_witness:
  "get_subject_config (config_manager (initial_service offline_world)) GOAL_SETTING = None
   \<and> stored_responses (config_manager (initial_service offline_world)) GOAL_SETTING = []
   \<and> (\<exists>r (fb :: FallbackResponse) w'.
         generate_response example_rt (initial_service offline_world) offline_world GOAL_SETTING
           (Some [(''mood'', PStr ''excited'')]) True = (Inr r, initial_service offline_world, w')
         \<and> resp_text r = response_text fb \<and> mood r = fb_mood fb
         \<and> source r = ''fallback''
         \<and> metadata r = [(''fallback_reason'', PStr ''ai_unavailable''),
                         (''context_type'', PStr ''general'')])"
proof -
  have a: "get_subject_config (config_manager (initial_service offline_world)) GOAL_SETTING = None"
    by (simp add: initial_service_def initial_config_GOAL_SETTING)
  have b: "stored_responses (config_manager (initial_service offline_world)) GOAL_SETTING = []"
    by (simp add: initial_service_def stored_responses_initial_GOAL_SETTING)
  then have c: "\<forall>r \<in> set (stored_responses (config_manager (initial_service offline_world))
                            GOAL_SETTING). 1 \<le> weight r"
    by simp
  have d: "dict_get [(''mood'', PStr ''excited'')] ''context_type'' (PStr ''general'') = PStr ''general''"
    by (simp add: dict_get_def)
  from unconfigured_subject_static_fallback[OF a c, of example_rt offline_world
          "Some [(''mood'', PStr ''excited'')]" True]
  have "\<exists>r (fb :: FallbackResponse) w'.
         generate_response example_rt (initial_service offline_world) offline_world GOAL_SETTING
           (Some [(''mood'', PStr ''excited'')]) True = (Inr r, initial_service offline_world, w')
         \<and> resp_text r = response_text fb \<and> mood r = fb_mood fb
         \<and> source r = ''fallback''
         \<and> metadata r = [(''fallback_reason'', PStr ''ai_unavailable''),
                         (''context_type'', PStr ''general'')]"
    unfolding option.case d by blast
  then show ?thesis using a b by blast
qed

text \<open>
  C3 as stated fails: the metadata of the response for the unconfigured subject
  \<^verbatim>\<open>goal_setting\<close> name the reason \<^verbatim>\<open>ai_unavailable\<close>.
\<close>

theorem unconfigured_subject_reason_counterexample:
  "fst (generate_response example_rt (initial_service offline_world) offline_world
          GOAL_SETTING None False)
     = Inr \<lparr>resp_text = generic_response_text, animation_type = ''bounce'', mood = ''cheerful'',
            source = ''fallback'',
            metadata = [(''fallback_reason'', PStr ''ai_unavailable''),
                        (''context_type'', PStr ''general'')],
            timestamp = 0\<rparr>"
  by (simp add: generate_response_def initial_service_def initial_config_GOAL_SETTING
        get_static_response_def get_fallback_response_def stored_responses_initial_GOAL_SETTING
        generic_fallback_def dict_get_def offline_world_def example_world_def Let_def)


section \<open>The administrative update\<close>

text \<open>
  C4. The update with temperature 5 of the configured subject \<^verbatim>\<open>task_creation\<close>
  is answered with 200 and applied: the temperature read back is 5, where it was
  0.8. The route validates the subject and the provider only.
\<close>

theorem temperature_update_applied:
  "fst (update_subject_configuration (initial_manager offline_world) ''task_creation''
          (Some temperature_request))
     = Response 200 True ''Configuration updated for task_creation''
   \<and> map_option (\<lambda>c. temperature (primary_model c))
        (get_subject_config (initial_manager offline_world) TASK_CREATION) = Some (8 / 10)
   \<and> map_option (\<lambda>c. temperature (primary_model c))
        (get_subject_config
           (snd (update_subject_configuration (initial_manager offline_world) ''task_creation''
                   (Some temperature_request))) TASK_CREATION) = Some 5"
proof -
  have s: "subject_of_value ''task_creation'' = Some TASK_CREATION"
    by (simp add: subject_of_value_def all_subjects_def)
  have p: "provider_of_value ''openai'' = Some OPENAI"
    by (simp add: provider_of_value_def all_providers_def)
  show ?thesis
    by (simp add: update_subject_configuration_def s p initial_config_TASK_CREATION
          temperature_request_def updated_primary_model_def or_else_def
          default_subject_config_def default_openai_def update_subject_config_def Let_def)
       (simp add: get_subject_config_def)
qed

section \<open>The user prompt\<close>

lemma prepend_Nil: "prepend [] r = r"
  by (simp add: prepend_def split: sum.splits)

lemma prepend_prepend: "prepend a (prepend b r) = prepend (a @ b) r"
  by (simp add: prepend_def split: sum.splits)

lemma prepend_Inr_iff: "prepend a r = Inr p \<longleftrightarrow> (\<exists>q. r = Inr q \<and> p = a @ q)"
  by (auto simp: prepend_def split: sum.splits)

lemma py_format_field:
  assumes "c' \<noteq> CHR ''{''" and "dropWhile (\<lambda>x. x \<noteq> CHR ''}'') (c' # r0) \<noteq> []"
    and "\<not> list_ex (\<lambda>x. x \<in> set ''.[!:{'') (takeWhile (\<lambda>x. x \<noteq> CHR ''}'') (c' # r0))"
    and "\<not> list_all is_digit (takeWhile (\<lambda>x. x \<noteq> CHR ''}'') (c' # r0))"
  shows "py_format (CHR ''{'' # c' # r0) kwargs =
           (case map_of kwargs (takeWhile (\<lambda>x. x \<noteq> CHR ''}'') (c' # r0)) of
              None \<Rightarrow> Inl (KeyError (takeWhile (\<lambda>x. x \<noteq> CHR ''}'') (c' # r0)))
            | Some v \<Rightarrow> prepend (py_str v)
                (py_format (tl (dropWhile (\<lambda>x. x \<noteq> CHR ''}'') (c' # r0))) kwargs))"
  using assms by (subst py_format.simps(2)) (simp del: py_format.simps takeWhile.simps dropWhile.simps dropWhile_eq_Nil_conv)

lemma py_format_append:
  "py_format pre ctx = Inr p \<Longrightarrow> py_format (pre @ rest) ctx = prepend p (py_format rest ctx)"
proof (induction pre ctx arbitrary: p rule: py_format.induct)
  case (1 kwargs)
  then show ?case by (simp add: prepend_Nil)
next
  case (2 c cs kwargs)
  let ?P = "\<lambda>x. x \<noteq> CHR ''}''"
  note [simp del] = py_format.simps takeWhile.simps dropWhile.simps
  show ?case
  proof (cases "c = CHR ''{''")
    case ob: True
    show ?thesis
    proof (cases cs)
      case Nil
      then show ?thesis using "2.prems" ob by (simp add: py_format.simps)
    next
      case (Cons c' rest0)
      show ?thesis
      proof (cases "c' = CHR ''{''")
        case True
        have "py_format (c # cs) kwargs = prepend ''{'' (py_format rest0 kwargs)"
          using ob Cons True by (subst py_format.simps(2)) simp
        with "2.prems" have "prepend ''{'' (py_format rest0 kwargs) = Inr p" by simp
        then obtain q where q: "py_format rest0 kwargs = Inr q" "p = ''{'' @ q"
          unfolding prepend_Inr_iff by blast
        have "py_format ((c # cs) @ rest) kwargs = prepend ''{'' (py_format (rest0 @ rest) kwargs)"
          using ob Cons True unfolding append_Cons by (subst py_format.simps(2)) simp
        then show ?thesis
          using "2.IH"(1)[OF ob Cons True q(1)] q by (simp add: prepend_prepend)
      next
        case False
        have e: "py_format (c # cs) kwargs =
          (if dropWhile ?P cs = [] then Inl (ValueError ''expected } before end of string'')
           else if list_ex (\<lambda>x. x \<in> set ''.[!:{'') (takeWhile ?P cs)
             then Inl (Unmodelled ''replacement field with conversion, format spec, attribute or index'')
             else if list_all is_digit (takeWhile ?P cs)
             then (if length (takeWhile ?P cs) \<le> 18
                   then Inl (IndexError ''Replacement index out of range for positional args tuple'')
                   else Inl (Unmodelled ''replacement index with more than 18 digits''))
             else (case map_of kwargs (takeWhile ?P cs) of
                  None \<Rightarrow> Inl (KeyError (takeWhile ?P cs))
                | Some v \<Rightarrow> prepend (py_str v) (py_format (tl (dropWhile ?P cs)) kwargs)))"
          using ob Cons False by (subst py_format.simps(2)) simp
        note eq = trans[OF e[symmetric] "2.prems"]
        have dne: "dropWhile ?P cs \<noteq> []"
        proof
          assume a: "dropWhile ?P cs = []"
          from eq[unfolded if_P[OF a]] show False by simp
        qed
        note eq1 = eq[unfolded if_not_P[OF dne]]
        have ns: "\<not> list_ex (\<lambda>x. x \<in> set ''.[!:{'') (takeWhile ?P cs)"
        proof
          assume a: "list_ex (\<lambda>x. x \<in> set ''.[!:{'') (takeWhile ?P cs)"
          from eq1[unfolded if_P[OF a]] show False by simp
        qed
        note eq2 = eq1[unfolded if_not_P[OF ns]]
        have nd: "\<not> list_all is_digit (takeWhile ?P cs)"
        proof
          assume a: "list_all is_digit (takeWhile ?P cs)"
          show False
          proof (cases "length (takeWhile ?P cs) \<le> 18")
            case True
            from eq2[unfolded if_P[OF a] if_P[OF True]] show False by simp
          next
            case False
            from eq2[unfolded if_P[OF a] if_not_P[OF False]] show False by simp
          qed
        qed
        note e2 = eq2[unfolded if_not_P[OF nd]]
        obtain v q where v: "map_of kwargs (takeWhile ?P cs) = Some v"
          and q: "py_format (tl (dropWhile ?P cs)) kwargs = Inr q" "p = py_str v @ q"
        proof (cases "map_of kwargs (takeWhile ?P cs)")
          case None
          then show ?thesis using e2 by simp
        next
          case (Some v)
          then have "prepend (py_str v) (py_format (tl (dropWhile ?P cs)) kwargs) = Inr p"
            using e2 by simp
          then show ?thesis using that Some unfolding prepend_Inr_iff by blast
        qed
        from dne obtain x where x: "x \<in> set cs" "\<not> ?P x"
          unfolding dropWhile_eq_Nil_conv by blast
        have tw: "takeWhile ?P (cs @ rest) = takeWhile ?P cs"
          by (rule takeWhile_append1[of x cs "\<lambda>x. x \<noteq> CHR ''}''" rest, OF x])
        have dw: "dropWhile ?P (cs @ rest) = dropWhile ?P cs @ rest"
          by (rule dropWhile_append1[of x cs "\<lambda>x. x \<noteq> CHR ''}''" rest, OF x])
        have tl: "tl (dropWhile ?P cs @ rest) = tl (dropWhile ?P cs) @ rest"
          using dne by simp
        have "py_format ((c # cs) @ rest) kwargs = py_format (CHR ''{'' # c' # (rest0 @ rest)) kwargs"
          using ob Cons by simp
        also have "\<dots> = prepend (py_str v) (py_format (tl (dropWhile ?P cs) @ rest) kwargs)"
          using py_format_field[of c' "rest0 @ rest" kwargs] False dne ns nd v tw dw tl Cons
          by (simp del: dropWhile_eq_Nil_conv)
        finally show ?thesis
          using "2.IH"(2)[OF ob Cons False dne ns nd v q(1)] q by (simp add: prepend_prepend)
      qed
    qed
  next
    case nob: False
    show ?thesis
    proof (cases "c = CHR ''}''")
      case cb: True
      show ?thesis
      proof (cases cs)
        case Nil
        then show ?thesis using "2.prems" nob cb by (simp add: py_format.simps)
      next
        case (Cons c' rest0)
        have c'b: "c' = CHR ''}''"
          using "2.prems" nob cb Cons by (subst (asm) py_format.simps(2)) (simp split: if_splits)
        have "py_format (c # cs) kwargs = prepend ''}'' (py_format rest0 kwargs)"
          using nob cb Cons c'b by (subst py_format.simps(2)) simp
        with "2.prems" have "prepend ''}'' (py_format rest0 kwargs) = Inr p" by simp
        then obtain q where q: "py_format rest0 kwargs = Inr q" "p = ''}'' @ q"
          unfolding prepend_Inr_iff by blast
        have "py_format ((c # cs) @ rest) kwargs = prepend ''}'' (py_format (rest0 @ rest) kwargs)"
          using nob cb Cons c'b unfolding append_Cons by (subst py_format.simps(2)) simp
        then show ?thesis
          using "2.IH"(3)[OF nob cb Cons c'b q(1)] q by (simp add: prepend_prepend)
      qed
    next
      case ncb: False
      have "py_format (c # cs) kwargs = prepend [c] (py_format cs kwargs)"
        using nob ncb by (subst py_format.simps(2)) simp
      with "2.prems" have "prepend [c] (py_format cs kwargs) = Inr p" by simp
      then obtain q where q: "py_format cs kwargs = Inr q" "p = [c] @ q"
        unfolding prepend_Inr_iff by blast
      have "py_format ((c # cs) @ rest) kwargs = prepend [c] (py_format (cs @ rest) kwargs)"
        using nob ncb unfolding append_Cons by (subst py_format.simps(2)) simp
      then show ?thesis
        using "2.IH"(4)[OF nob ncb q(1)] q by (simp add: prepend_prepend)
    qed
  qed
qed

lemma py_format_missing_key:
  assumes "plain_field k" and "map_of ctx k = None"
  shows "py_format (''{'' @ k @ ''}'' @ rest) ctx = Inl (KeyError k)"
proof -
  let ?P = "\<lambda>x. x \<noteq> CHR ''}''"
  from assms(1) obtain c' r0 where k: "k = c' # r0"
    by (cases k) (auto simp: plain_field_def)
  have nb: "\<forall>x \<in> set k. x \<noteq> CHR ''}'' \<and> x \<noteq> CHR ''{''"
    using assms(1) by (auto simp: plain_field_def list_ex_iff)
  have tw: "takeWhile ?P (k @ ''}'' @ rest) = k"
    using nb by (simp add: takeWhile_append2)
  have dw: "dropWhile ?P (k @ ''}'' @ rest) = ''}'' @ rest"
    using nb by (simp add: dropWhile_append2)
  have ns: "\<not> list_ex (\<lambda>x. x \<in> set ''.[!:{'') k"
    using assms(1) by (auto simp: plain_field_def list_ex_iff)
  have nd: "\<not> list_all is_digit k" using assms(1) by (simp add: plain_field_def)
  have c': "c' \<noteq> CHR ''{''" using nb k by simp
  have "py_format (CHR ''{'' # c' # (r0 @ ''}'' @ rest)) ctx = Inl (KeyError k)"
    using py_format_field[of c' "r0 @ ''}'' @ rest" ctx] c' tw dw ns nd assms(2) k
    by (simp del: py_format.simps takeWhile.simps dropWhile.simps dropWhile_eq_Nil_conv)
  then show ?thesis using k by simp
qed


lemma py_format_present_key:
  assumes "plain_field k" and "map_of ctx k = Some v"
  shows "py_format (''{'' @ k @ ''}'' @ rest) ctx = prepend (py_str v) (py_format rest ctx)"
proof -
  let ?P = "\<lambda>x. x \<noteq> CHR ''}''"
  from assms(1) obtain c' r0 where k: "k = c' # r0"
    by (cases k) (auto simp: plain_field_def)
  have nb: "\<forall>x \<in> set k. x \<noteq> CHR ''}'' \<and> x \<noteq> CHR ''{''"
    using assms(1) by (auto simp: plain_field_def list_ex_iff)
  have tw: "takeWhile ?P (k @ ''}'' @ rest) = k"
    using nb by (simp add: takeWhile_append2)
  have dw: "dropWhile ?P (k @ ''}'' @ rest) = ''}'' @ rest"
    using nb by (simp add: dropWhile_append2)
  have ns: "\<not> list_ex (\<lambda>x. x \<in> set ''.[!:{'') k"
    using assms(1) by (auto simp: plain_field_def list_ex_iff)
  have nd: "\<not> list_all is_digit k" using assms(1) by (simp add: plain_field_def)
  have c': "c' \<noteq> CHR ''{''" using nb k by simp
  have "py_format (CHR ''{'' # c' # (r0 @ ''}'' @ rest)) ctx = prepend (py_str v) (py_format rest ctx)"
    using py_format_field[of c' "r0 @ ''}'' @ rest" ctx] c' tw dw ns nd assms(2) k
    by (simp del: py_format.simps takeWhile.simps dropWhile.simps dropWhile_eq_Nil_conv)
  then show ?thesis using k by simp
qed

lemma format_user_prompt_cases:
  assumes "get_subject_config mgr s = Some cfg" and "context_template cfg \<noteq> []"
  shows "str_format rt (context_template cfg) ctx = Inr p \<Longrightarrow>
           format_user_prompt rt mgr s ctx = Inr p"
    and "str_format rt (context_template cfg) ctx = Inl (KeyError k) \<Longrightarrow>
           format_user_prompt rt mgr s ctx =
             Inr (''Generate a response for '' @ subject_value s
                  @ '' with available context: '' @ dict_str rt ctx)"
  using assms by (simp_all add: format_user_prompt_def)

text \<open>
  C5 (as amended). For a subject with a template, the user prompt is what
  \<^verbatim>\<open>template.format(**context)\<close> returns, the values of the context put in the
  place of the fields that name them. When \<^verbatim>\<open>format\<close> raises \<^verbatim>\<open>KeyError\<close>, as
  it does at the first field whose key the context lacks, the template is given
  up: the prompt is the generic sentence with the subject and the whole context,
  and the call goes on without an exception.
\<close>

theorem format_user_prompt_template:
  assumes "get_subject_config mgr s = Some cfg" and "context_template cfg \<noteq> []"
  shows "(\<forall>p. str_format rt (context_template cfg) ctx = Inr p \<longrightarrow>
            format_user_prompt rt mgr s ctx = Inr p)
       \<and> (\<forall>k. str_format rt (context_template cfg) ctx = Inl (KeyError k) \<longrightarrow>
            format_user_prompt rt mgr s ctx =
              Inr (''Generate a response for '' @ subject_value s
                   @ '' with available context: '' @ dict_str rt ctx))
       \<and> (\<forall>pre p k v rest. py_format pre ctx = Inr p \<and> plain_field k \<and> map_of ctx k = Some v \<longrightarrow>
            py_format (pre @ ''{'' @ k @ ''}'' @ rest) ctx
              = prepend (p @ py_str v) (py_format rest ctx))
       \<and> (\<forall>pre p k rest. str_format rt = py_format
              \<and> context_template cfg = pre @ ''{'' @ k @ ''}'' @ rest
              \<and> py_format pre ctx = Inr p \<and> plain_field k \<and> map_of ctx k = None \<longrightarrow>
            format_user_prompt rt mgr s ctx =
              Inr (''Generate a response for '' @ subject_value s
                   @ '' with available context: '' @ dict_str rt ctx))"
proof (intro conjI allI impI)
  fix p assume "str_format rt (context_template cfg) ctx = Inr p"
  then show "format_user_prompt rt mgr s ctx = Inr p"
    by (rule format_user_prompt_cases(1)[OF assms])
next
  fix k assume "str_format rt (context_template cfg) ctx = Inl (KeyError k)"
  then show "format_user_prompt rt mgr s ctx =
              Inr (''Generate a response for '' @ subject_value s
                   @ '' with available context: '' @ dict_str rt ctx)"
    by (rule format_user_prompt_cases(2)[OF assms])
next
  fix pre p k v rest
  assume a: "py_format pre ctx = Inr p \<and> plain_field k \<and> map_of ctx k = Some v"
  then have "py_format (pre @ ''{'' @ k @ ''}'' @ rest) ctx
      = prepend p (py_format (''{'' @ k @ ''}'' @ rest) ctx)"
    by (simp only: py_format_append)
  also have "\<dots> = prepend p (prepend (py_str v) (py_format rest ctx))"
    using a by (simp only: py_format_present_key)
  finally show "py_format (pre @ ''{'' @ k @ ''}'' @ rest) ctx
              = prepend (p @ py_str v) (py_format rest ctx)"
    by (simp only: prepend_prepend)
next
  fix pre p k rest
  assume a: "str_format rt = py_format
              \<and> context_template cfg = pre @ ''{'' @ k @ ''}'' @ rest
              \<and> py_format pre ctx = Inr p \<and> plain_field k \<and> map_of ctx k = None"
  then have "py_format (pre @ ''{'' @ k @ ''}'' @ rest) ctx
      = prepend p (py_format (''{'' @ k @ ''}'' @ rest) ctx)"
    by (simp only: py_format_append)
  also have "\<dots> = prepend p (Inl (KeyError k))"
    using a by (simp only: py_format_missing_key)
  finally have "str_format rt (context_template cfg) ctx = Inl (KeyError k)"
    using a by (simp add: prepend_def)
  then show "format_user_prompt rt mgr s ctx =
              Inr (''Generate a response for '' @ subject_value s
                   @ '' with available context: '' @ dict_str rt ctx)"
    by (rule format_user_prompt_cases(2)[OF assms])
qed


theorem format_user_prompt_template_witness:
  "get_subject_config (initial_manager offline_world) TASK_CREATION
     = Some (default_subject_config offline_world TASK_CREATION system_prompt_TASK_CREATION
               context_template_TASK_CREATION)
   \<and> context_template_TASK_CREATION
       = ''User is creating a task: {task_title} with priority ''
         @ ''{'' @ ''priority'' @ ''}'' @ '' and difficulty {difficulty}''
   \<and> py_format ''User is creating a task: {task_title} with priority '' partial_context
       = Inr ''User is creating a task: Write report with priority ''
   \<and> plain_field ''priority''
   \<and> map_of partial_context ''priority'' = None
   \<and> format_user_prompt example_rt (initial_manager offline_world) TASK_CREATION partial_context
       = Inr (''Generate a response for task_creation with available context: ''
              @ dict_str example_rt partial_context)"
proof -
  let ?cfg = "default_subject_config offline_world TASK_CREATION system_prompt_TASK_CREATION
               context_template_TASK_CREATION"
  have t: "context_template ?cfg = context_template_TASK_CREATION"
    by (simp add: default_subject_config_def)
  have ne: "context_template ?cfg \<noteq> []" by (simp add: t template_nonempty)
  have a: "context_template_TASK_CREATION
       = ''User is creating a task: {task_title} with priority ''
         @ ''{'' @ ''priority'' @ ''}'' @ '' and difficulty {difficulty}''"
    by (simp add: context_template_TASK_CREATION_def)
  have b: "py_format ''User is creating a task: {task_title} with priority '' partial_context
       = Inr ''User is creating a task: Write report with priority ''"
    by code_simp
  have c: "plain_field ''priority''" by code_simp
  have d: "map_of partial_context ''priority'' = None" by (simp add: partial_context_def)
  note th = format_user_prompt_template[OF initial_config_TASK_CREATION ne,
              of example_rt partial_context, THEN conjunct2, THEN conjunct2, THEN conjunct2,
              rule_format,
              of "''User is creating a task: {task_title} with priority ''"
                 "''priority''" "'' and difficulty {difficulty}''"
                 "''User is creating a task: Write report with priority ''"]
  have "format_user_prompt example_rt (initial_manager offline_world) TASK_CREATION partial_context
       = Inr (''Generate a response for '' @ subject_value TASK_CREATION
              @ '' with available context: '' @ dict_str example_rt partial_context)"
    by (rule th)
       (intro conjI, simp add: example_rt_fields,
        simp add: default_subject_config_def context_template_TASK_CREATION_def,
        rule b, rule c, rule d)
  then show ?thesis
    using initial_config_TASK_CREATION[of offline_world] a b c d by simp
qed

text \<open>
  C5 as stated fails: with the title alone in the context, the prompt of the default
  task-creation template is the generic sentence, not the template with
  \<^verbatim>\<open>{priority}\<close> and \<^verbatim>\<open>{difficulty}\<close> left in it.
\<close>

theorem missing_key_drops_template_counterexample:
  "format_user_prompt example_rt (initial_manager offline_world) TASK_CREATION partial_context
     = Inr (''Generate a response for task_creation with available context: {''
            @ [CHR 0x27] @ ''task_title'' @ [CHR 0x27] @ '': ''
            @ [CHR 0x27] @ ''Write report'' @ [CHR 0x27] @ ''}'')
   \<and> format_user_prompt example_rt (initial_manager offline_world) TASK_CREATION partial_context
     \<noteq> Inr ''User is creating a task: Write report with priority {priority} and difficulty {difficulty}''"
  by code_simp


end
